theory Spec2Isabelle
  imports Main
begin

section \<open>Python values as the loader and the writer see them\<close>

text \<open>
  \<^verbatim>\<open>app.py\<close> moves data between a parsed YAML document and a dictionary of service
  records. Both are ordinary Python objects, so one datatype of values serves for the
  document, for \<^verbatim>\<open>DEFAULT_CONFIG\<close> and for the configuration held by the application.

  The model covers the part of what \<^verbatim>\<open>yaml.safe_load\<close> can return that is built from
  \<^verbatim>\<open>None\<close>, booleans, integers, strings, lists and dictionaries with scalar keys. Floats,
  binary data, timestamps and sets are left out. A dictionary is an association list in
  insertion order. A string is a list of characters; one element stands for one Python
  character.
\<close>

datatype pykey = KNone | KBool bool | KInt int | KStr string

datatype pyval =
    PNone
  | PBool bool
  | PInt int
  | PStr string
  | PList "pyval list"
  | PDict "(pykey \<times> pyval) list"

type_synonym pydict = "(pykey \<times> pyval) list"

text \<open>The exceptions the modelled code can raise. All of them derive from \<^verbatim>\<open>Exception\<close>.\<close>

datatype pyerr = AttributeError | TypeError | KeyError | IndexError | OSError | YAMLError

text \<open>Sequencing of statements that may raise: the first exception ends the block.\<close>

definition bind :: "pyerr + 'a \<Rightarrow> ('a \<Rightarrow> pyerr + 'b) \<Rightarrow> pyerr + 'b" where
  "bind m f = (case m of Inl e \<Rightarrow> Inl e | Inr x \<Rightarrow> f x)"

subsection \<open>Dictionaries\<close>

text \<open>
  Python compares keys with \<^verbatim>\<open>==\<close>, under which \<^verbatim>\<open>True == 1\<close> and \<^verbatim>\<open>False == 0\<close>.
\<close>

fun key_num :: "pykey \<Rightarrow> pykey" where
  "key_num (KBool b) = KInt (if b then 1 else 0)"
| "key_num k = k"

definition key_eq :: "pykey \<Rightarrow> pykey \<Rightarrow> bool" where
  "key_eq a b = (key_num a = key_num b)"

fun dict_find :: "pykey \<Rightarrow> (pykey \<times> 'v) list \<Rightarrow> 'v option" where
  "dict_find k [] = None"
| "dict_find k ((k', v) # d) = (if key_eq k k' then Some v else dict_find k d)"

text \<open>\<^verbatim>\<open>d[k] = v\<close>: an existing key keeps its place, a new one goes last.\<close>

fun dict_set :: "(pykey \<times> 'v) list \<Rightarrow> pykey \<Rightarrow> 'v \<Rightarrow> (pykey \<times> 'v) list" where
  "dict_set [] k v = [(k, v)]"
| "dict_set ((k', w) # d) k v =
     (if key_eq k k' then (k', v) # d else (k', w) # dict_set d k v)"

text \<open>\<^verbatim>\<open>x.get(k, d)\<close>: only a dictionary has the method.\<close>

fun py_get :: "pyval \<Rightarrow> pykey \<Rightarrow> pyval \<Rightarrow> pyerr + pyval" where
  "py_get (PDict items) k d = Inr (case dict_find k items of None \<Rightarrow> d | Some v \<Rightarrow> v)"
| "py_get _ k d = Inl AttributeError"

text \<open>
  \<^verbatim>\<open>x[k]\<close> for a string key \<open>k\<close>: a missing key of a dictionary is a \<^verbatim>\<open>KeyError\<close>;
  strings and lists take integer indices only, and the remaining values are not
  subscriptable.
\<close>

fun py_getitem :: "pyval \<Rightarrow> string \<Rightarrow> pyerr + pyval" where
  "py_getitem (PDict items) k =
     (case dict_find (KStr k) items of None \<Rightarrow> Inl KeyError | Some v \<Rightarrow> Inr v)"
| "py_getitem _ k = Inl TypeError"

subsection \<open>Sequences and strings\<close>

text \<open>\<^verbatim>\<open>len(x)\<close>.\<close>

fun py_len :: "pyval \<Rightarrow> pyerr + nat" where
  "py_len (PStr s) = Inr (length s)"
| "py_len (PList xs) = Inr (length xs)"
| "py_len (PDict items) = Inr (length items)"
| "py_len _ = Inl TypeError"

text \<open>
  \<^verbatim>\<open>x[0]\<close>: the first character of a string (itself a string), the first element of a
  list, the value under a key equal to \<open>0\<close> of a dictionary.
\<close>

fun py_item0 :: "pyval \<Rightarrow> pyerr + pyval" where
  "py_item0 (PStr s) = (case s of [] \<Rightarrow> Inl IndexError | c # _ \<Rightarrow> Inr (PStr [c]))"
| "py_item0 (PList xs) = (case xs of [] \<Rightarrow> Inl IndexError | x # _ \<Rightarrow> Inr x)"
| "py_item0 (PDict items) =
     (case dict_find (KInt 0) items of None \<Rightarrow> Inl KeyError | Some v \<Rightarrow> Inr v)"
| "py_item0 _ = Inl TypeError"

text \<open>\<^verbatim>\<open>s.split(c)\<close> for a one-character separator: the pieces between the separators.\<close>

fun split_on :: "char \<Rightarrow> string \<Rightarrow> string list" where
  "split_on c [] = [[]]"
| "split_on c (x # xs) =
     (if x = c then [] # split_on c xs
      else (case split_on c xs of [] \<Rightarrow> [[x]] | p # ps \<Rightarrow> (x # p) # ps))"

fun py_split :: "pyval \<Rightarrow> pyerr + string list" where
  "py_split (PStr s) = Inr (split_on CHR '':'' s)"
| "py_split _ = Inl AttributeError"

text \<open>\<^verbatim>\<open>parts[i]\<close> on a list, for \<open>i \<ge> 0\<close>.\<close>

definition list_item :: "'a list \<Rightarrow> nat \<Rightarrow> pyerr + 'a" where
  "list_item xs i = (if i < length xs then Inr (xs ! i) else Inl IndexError)"

text \<open>\<^verbatim>\<open>x + suffix\<close> and \<^verbatim>\<open>prefix + x\<close> with a string literal: defined for strings only.\<close>

fun py_append :: "pyval \<Rightarrow> string \<Rightarrow> pyerr + pyval" where
  "py_append (PStr s) suffix = Inr (PStr (s @ suffix))"
| "py_append _ suffix = Inl TypeError"

fun py_prepend :: "string \<Rightarrow> pyval \<Rightarrow> pyerr + pyval" where
  "py_prepend prefix (PStr s) = Inr (PStr (prefix @ s))"
| "py_prepend prefix _ = Inl TypeError"

section \<open>The loader\<close>

definition DEFAULT_CONFIG :: pydict where
  "DEFAULT_CONFIG =
     [(KStr ''justicar'', PDict
         [(KStr ''port'', PStr ''1309''),
          (KStr ''configuration file'', PStr ''/opt/cd2n/justicar''),
          (KStr ''name'', PStr ''justicar'')]),
      (KStr ''chain'', PDict
         [(KStr ''name'', PStr ''cess-chain''),
          (KStr ''port'', PStr ''9944''),
          (KStr ''network'', PStr ''testnet''),
          (KStr ''configuration file'', PStr ''/opt/cd2n/chain'')])]"

text \<open>\<^verbatim>\<open>DEFAULT_CONFIG[service_name][field]\<close>.\<close>

definition default_field :: "pykey \<Rightarrow> string \<Rightarrow> pyerr + pyval" where
  "default_field service_name field =
     (case dict_find service_name DEFAULT_CONFIG of
        None \<Rightarrow> Inl KeyError
      | Some r \<Rightarrow> py_getitem r field)"

text \<open>
  Lines 52--53 and 57--58: \<^verbatim>\<open>if len(x) > 0: x = x[0].split(':')[0]\<close>. An empty
  sequence is left as it is.
\<close>

definition first_host_side :: "pyval \<Rightarrow> pyerr + pyval" where
  "first_host_side x =
     bind (py_len x) (\<lambda>n.
       if n > 0 then
         bind (py_item0 x) (\<lambda>first.
         bind (py_split first) (\<lambda>parts.
         bind (list_item parts 0) (\<lambda>host. Inr (PStr host))))
       else Inr x)"

text \<open>
  Lines 68--72: the network of the chain service is the second piece of the image
  name, or the default when there is no image.
\<close>

definition chain_network :: "pyval \<Rightarrow> pykey \<Rightarrow> pyerr + pyval" where
  "chain_network service_data service_name =
     bind (py_get service_data (KStr ''image'') PNone) (\<lambda>image.
       if image \<noteq> PNone then
         bind (py_split image) (\<lambda>parts.
         bind (list_item parts 1) (\<lambda>tag. Inr (PStr tag)))
       else default_field service_name ''network'')"

text \<open>Line 49: \<^verbatim>\<open>data.get("services", {}).get(service_name, {})\<close>.\<close>

definition service_entry :: "pyval \<Rightarrow> pykey \<Rightarrow> pyerr + pyval" where
  "service_entry data service_name =
     bind (py_get data (KStr ''services'') (PDict [])) (\<lambda>services.
       py_get services service_name (PDict []))"

text \<open>Lines 50--83: the record of one service, stored in the dictionary built so far.\<close>

definition extract_service :: "pykey \<Rightarrow> pyval \<Rightarrow> pydict \<Rightarrow> pyerr + pydict" where
  "extract_service service_name service_data new_config =
     bind (default_field service_name ''port'') (\<lambda>default_port.
     bind (py_get service_data (KStr ''ports'') default_port) (\<lambda>ports.
     bind (first_host_side ports) (\<lambda>ports.
     bind (default_field service_name ''configuration file'') (\<lambda>default_path.
     bind (py_get service_data (KStr ''volumes'') default_path) (\<lambda>configuration_path.
     bind (first_host_side configuration_path) (\<lambda>configuration_path.
       if service_name = KStr ''justicar'' then
         bind (default_field service_name ''name'') (\<lambda>default_name.
         bind (py_get service_data (KStr ''container_name'') default_name) (\<lambda>name.
           Inr (dict_set new_config service_name (PDict
             [(KStr ''port'', ports),
              (KStr ''configuration file'', configuration_path),
              (KStr ''name'', name)]))))
       else if service_name = KStr ''chain'' then
         bind (chain_network service_data service_name) (\<lambda>network.
         bind (default_field service_name ''name'') (\<lambda>default_name.
         bind (py_get service_data (KStr ''container_name'') default_name) (\<lambda>name.
           Inr (dict_set new_config service_name (PDict
             [(KStr ''port'', ports),
              (KStr ''configuration file'', configuration_path),
              (KStr ''name'', name),
              (KStr ''network'', network)])))))
       else Inr new_config))))))"

text \<open>One turn of the loop of lines 48--83.\<close>

definition load_service :: "pyval \<Rightarrow> pydict \<Rightarrow> pykey \<Rightarrow> pyerr + pydict" where
  "load_service data new_config service_name =
     bind (service_entry data service_name) (\<lambda>service_data.
       extract_service service_name service_data new_config)"

fun load_services :: "pyval \<Rightarrow> pykey list \<Rightarrow> pydict \<Rightarrow> pyerr + pydict" where
  "load_services data [] new_config = Inr new_config"
| "load_services data (service_name # rest) new_config =
     (case load_service data new_config service_name of
        Inl e \<Rightarrow> Inl e
      | Inr new_config' \<Rightarrow> load_services data rest new_config')"

subsection \<open>Files\<close>

text \<open>
  What is at a path: nothing, something that cannot be opened for reading, text that
  \<^verbatim>\<open>yaml.safe_load\<close> rejects, or text that it parses to a value. An empty file parses
  to \<^verbatim>\<open>None\<close>. A path can be written when \<open>writable\<close> says so.
\<close>

datatype file_state = Unreadable | Malformed | Document pyval

record world =
  files :: "string \<Rightarrow> file_state option"
  writable :: "string \<Rightarrow> bool"

definition empty_file :: file_state where
  "empty_file = Document PNone"

text \<open>A writable file system with no file in it.\<close>

definition no_files :: world where
  "no_files = \<lparr>files = Map.empty, writable = (\<lambda>path. True)\<rparr>"

text \<open>Lines 45--46: open and parse.\<close>

definition read_yaml :: "world \<Rightarrow> string \<Rightarrow> pyerr + pyval" where
  "read_yaml w path =
     (case files w path of
        None \<Rightarrow> Inl OSError
      | Some Unreadable \<Rightarrow> Inl OSError
      | Some Malformed \<Rightarrow> Inl YAMLError
      | Some (Document data) \<Rightarrow> Inr data)"

text \<open>The body of the \<^verbatim>\<open>try\<close> block, lines 45--85.\<close>

definition load_try :: "world \<Rightarrow> string \<Rightarrow> pyerr + pydict" where
  "load_try w path =
     bind (read_yaml w path) (\<lambda>data. load_services data (map fst DEFAULT_CONFIG) [])"

text \<open>
  \<^verbatim>\<open>load_config_from_docker_compose\<close>. The value of \<^verbatim>\<open>DEFAULT_CONFIG.copy()\<close> is the
  value of \<^verbatim>\<open>DEFAULT_CONFIG\<close>; what the copy shares with the original is the subject of
  the store model further down.
\<close>

definition load_config_from_docker_compose :: "world \<Rightarrow> string \<Rightarrow> pydict" where
  "load_config_from_docker_compose w path =
     (if files w path = None then DEFAULT_CONFIG
      else (case load_try w path of
              Inl e \<Rightarrow> DEFAULT_CONFIG
            | Inr new_config \<Rightarrow> new_config))"

section \<open>The writer\<close>

text \<open>Lines 97--112: the service definition of \<^verbatim>\<open>justicar\<close>.\<close>

definition justicar_service :: "pyval \<Rightarrow> pyerr + pyval" where
  "justicar_service service_config =
     bind (py_getitem service_config ''name'') (\<lambda>name.
     bind (py_getitem service_config ''port'') (\<lambda>port.
     bind (py_append port '':1309'') (\<lambda>port_mapping.
     bind (py_getitem service_config ''configuration file'') (\<lambda>path.
     bind (py_append path '':/opt/justicar/backups'') (\<lambda>volume.
       Inr (PDict
         [(KStr ''image'', PStr ''cdn:latest''),
          (KStr ''container_name'', name),
          (KStr ''devices'', PList
             [PStr ''/dev/sgx_enclave:/dev/sgx_enclave'',
              PStr ''/dev/sgx_provision:/dev/sgx_provision'']),
          (KStr ''ports'', PList [port_mapping]),
          (KStr ''volumes'', PList [volume]),
          (KStr ''networks'', PList [PStr ''cd2n'']),
          (KStr ''stdin_open'', PBool True),
          (KStr ''tty'', PBool True)]))))))"

text \<open>Lines 120--148: the startup arguments of the chain node, around the chain id.\<close>

definition chain_command :: "pyval \<Rightarrow> pyval list" where
  "chain_command chain_id =
     [PStr ''--base-path'', PStr ''/opt/cess/data'',
      PStr ''--chain'', chain_id,
      PStr ''--port'', PStr ''30336'',
      PStr ''--name'', PStr ''cess'',
      PStr ''--rpc-port'', PStr ''9944'',
      PStr ''--execution'', PStr ''WASM'',
      PStr ''--wasm-execution'', PStr ''compiled'',
      PStr ''--in-peers'', PStr ''75'',
      PStr ''--out-peers'', PStr ''75'',
      PStr ''--rpc-max-response-size'', PStr ''32'',
      PStr ''--pruning'', PStr ''archive'',
      PStr ''--rpc-external'',
      PStr ''--rpc-methods'', PStr ''unsafe'',
      PStr ''--rpc-cors'', PStr ''all'']"

text \<open>Lines 114--159: the service definition of \<^verbatim>\<open>chain\<close>.\<close>

definition chain_service :: "pyval \<Rightarrow> pyerr + pyval" where
  "chain_service service_config =
     bind (py_getitem service_config ''network'') (\<lambda>network.
     bind (py_prepend ''cesslab/cess-chain:'' network) (\<lambda>image.
     bind (py_getitem service_config ''configuration file'') (\<lambda>path.
     bind (py_append path '':/opt/cess/data'') (\<lambda>volume.
     bind (py_getitem service_config ''network'') (\<lambda>network.
     bind (py_prepend ''cess-'' network) (\<lambda>chain_id.
     bind (py_getitem service_config ''name'') (\<lambda>name.
     bind (py_getitem service_config ''port'') (\<lambda>port.
     bind (py_append port '':9944'') (\<lambda>port_mapping.
       Inr (PDict
         [(KStr ''image'', image),
          (KStr ''volumes'', PList [volume]),
          (KStr ''command'', PList (chain_command chain_id)),
          (KStr ''logging'', PDict
             [(KStr ''driver'', PStr ''json-file''),
              (KStr ''options'', PDict
                 [(KStr ''max-size'', PStr ''300m''),
                  (KStr ''max-file'', PStr ''10'')])]),
          (KStr ''networks'', PList [PStr ''cd2n'']),
          (KStr ''container_name'', name),
          (KStr ''ports'', PList [port_mapping, PStr ''30336:30336''])]))))))))))"

text \<open>
  The loop of lines 94--161 over \<^verbatim>\<open>config.items()\<close>, on the dictionary \<^verbatim>\<open>services\<close>
  built so far. A key other than the two supported ones is logged and passed over.
\<close>

fun save_services :: "pydict \<Rightarrow> pydict \<Rightarrow> pyerr + pydict" where
  "save_services [] services = Inr services"
| "save_services ((service_name, service_config) # rest) services =
     (if service_name = KStr ''justicar'' then
        (case justicar_service service_config of
           Inl e \<Rightarrow> Inl e
         | Inr s \<Rightarrow> save_services rest (dict_set services service_name s))
      else if service_name = KStr ''chain'' then
        (case chain_service service_config of
           Inl e \<Rightarrow> Inl e
         | Inr s \<Rightarrow> save_services rest (dict_set services service_name s))
      else save_services rest services)"

text \<open>Lines 163--172.\<close>

definition docker_compose_data :: "pydict \<Rightarrow> pyval" where
  "docker_compose_data services =
     PDict
       [(KStr ''version'', PStr ''3.9''),
        (KStr ''services'', PDict services),
        (KStr ''networks'', PDict
           [(KStr ''cd2n'', PDict
               [(KStr ''name'', PStr ''cd2n''),
                (KStr ''driver'', PStr ''bridge'')])])]"

text \<open>
  \<^verbatim>\<open>save_config_to_docker_compose\<close>. Opening the file for writing fails on a path that is
  not writable, and then nothing is written. After a successful write the file parses to
  the document that was dumped: \<^verbatim>\<open>yaml.safe_load\<close> gives back what \<^verbatim>\<open>yaml.safe_dump\<close>
  was given, with the keys in the order they were inserted (\<^verbatim>\<open>sort_keys=False\<close>).
\<close>

definition save_config_to_docker_compose :: "pydict \<Rightarrow> string \<Rightarrow> world \<Rightarrow> pyerr + world" where
  "save_config_to_docker_compose config path w =
     bind (save_services config []) (\<lambda>services.
       if writable w path
       then Inr (w\<lparr>files := (files w)(path \<mapsto> Document (docker_compose_data services))\<rparr>)
       else Inl OSError)"

section \<open>Committing an edit\<close>

text \<open>
  A \<^verbatim>\<open>ConfigScreen\<close> holds the name of its service, its own copy of the record
  (\<^verbatim>\<open>current_config\<close>) and the text now in each input field. The application holds the
  configuration and the stack of screens, top first.
\<close>

datatype screen = MainMenu | ConfigScreen pykey pydict "(pykey \<times> string) list"

record app =
  config :: pydict
  screens :: "screen list"



section \<open>Python equality\<close>

text \<open>
  \<^verbatim>\<open>==\<close> on values: dictionaries are equal when they have the same number of entries
  and every key of the first has an equal value in the second, whatever the order.
\<close>

fun py_eq :: "pyval \<Rightarrow> pyval \<Rightarrow> bool" where
  "py_eq PNone PNone = True"
| "py_eq (PBool a) (PBool b) = (a = b)"
| "py_eq (PBool a) (PInt b) = ((if a then 1 else 0) = b)"
| "py_eq (PInt a) (PBool b) = (a = (if b then 1 else 0))"
| "py_eq (PInt a) (PInt b) = (a = b)"
| "py_eq (PStr a) (PStr b) = (a = b)"
| "py_eq (PList xs) (PList ys) = list_all2 py_eq xs ys"
| "py_eq (PDict d) (PDict e) =
     (length d = length e \<and>
      list_all (\<lambda>kv. case dict_find (fst kv) e of
                       None \<Rightarrow> False
                     | Some w \<Rightarrow> py_eq (snd kv) w) d)"
| "py_eq _ _ = False"

section \<open>Configuration models\<close>

text \<open>
  The field \<open>k\<close> of a record when it is a string. A record of \<^verbatim>\<open>justicar\<close> has a port,
  a configuration file and a name; a record of \<^verbatim>\<open>chain\<close> has a network as well.
\<close>

definition str_field :: "pyval \<Rightarrow> string \<Rightarrow> string option" where
  "str_field r k =
     (case r of
        PDict d \<Rightarrow> (case dict_find (KStr k) d of Some (PStr s) \<Rightarrow> Some s | _ \<Rightarrow> None)
      | _ \<Rightarrow> None)"

definition justicar_record :: "pyval \<Rightarrow> bool" where
  "justicar_record r =
     (str_field r ''port'' \<noteq> None \<and> str_field r ''configuration file'' \<noteq> None \<and>
      str_field r ''name'' \<noteq> None)"

definition chain_record :: "pyval \<Rightarrow> bool" where
  "chain_record r =
     (str_field r ''port'' \<noteq> None \<and> str_field r ''configuration file'' \<noteq> None \<and>
      str_field r ''name'' \<noteq> None \<and> str_field r ''network'' \<noteq> None)"

text \<open>
  A dictionary with exactly the keys \<open>ks\<close>, and a record with exactly the fields \<open>ks\<close>,
  each a string without a colon.
\<close>

definition has_keys :: "(pykey \<times> 'v) list \<Rightarrow> string list \<Rightarrow> bool" where
  "has_keys d ks = (distinct (map fst d) \<and> set (map fst d) = set (map KStr ks))"

definition colon_free_record :: "pyval \<Rightarrow> string list \<Rightarrow> bool" where
  "colon_free_record r ks =
     (case r of
        PDict d \<Rightarrow>
          has_keys d ks \<and>
          list_all (\<lambda>k. case str_field r k of
                          Some s \<Rightarrow> CHR '':'' \<notin> set s
                        | None \<Rightarrow> False) ks
      | _ \<Rightarrow> False)"

definition well_formed_model :: "pydict \<Rightarrow> bool" where
  "well_formed_model m =
     (has_keys m [''justicar'', ''chain''] \<and>
      (case dict_find (KStr ''justicar'') m of
         Some r \<Rightarrow> colon_free_record r [''port'', ''configuration file'', ''name'']
       | None \<Rightarrow> False) \<and>
      (case dict_find (KStr ''chain'') m of
         Some r \<Rightarrow> colon_free_record r [''port'', ''configuration file'', ''name'', ''network'']
       | None \<Rightarrow> False))"

text \<open>
  A configuration model as the specification has it: exactly the two services, each
  with a record whose fields are strings.
\<close>

definition config_model :: "pydict \<Rightarrow> bool" where
  "config_model m =
     (has_keys m [''justicar'', ''chain''] \<and>
      (case dict_find (KStr ''justicar'') m of
         Some r \<Rightarrow> justicar_record r
       | None \<Rightarrow> False) \<and>
      (case dict_find (KStr ''chain'') m of
         Some r \<Rightarrow> chain_record r
       | None \<Rightarrow> False))"

section \<open>Dictionaries as objects\<close>

text \<open>
  \<^verbatim>\<open>DEFAULT_CONFIG.copy()\<close> is a shallow copy, so what a caller can change through a
  returned dictionary depends on which dictionary objects it shares with the default.
  In the store, every dictionary object has an address (its index); an entry of a
  dictionary holds a value or the address of another dictionary.
\<close>

datatype cell = Val pyval | Ref nat

type_synonym store = "(pykey \<times> cell) list list"

definition obj :: "store \<Rightarrow> nat \<Rightarrow> (pykey \<times> cell) list" where
  "obj h a = (if a < length h then h ! a else [])"

text \<open>A new dictionary object with the given entries.\<close>

definition new_dict :: "(pykey \<times> cell) list \<Rightarrow> store \<Rightarrow> nat \<times> store" where
  "new_dict items h = (length h, h @ [items])"

text \<open>
  A dictionary of records as a dictionary literal builds it (lines 21--33, 62--66 and
  74--79): one new object for each record, and one for the dictionary that refers to
  them.
\<close>

fun alloc_records :: "pydict \<Rightarrow> store \<Rightarrow> (pykey \<times> cell) list \<times> store" where
  "alloc_records [] h = ([], h)"
| "alloc_records ((k, PDict r) # rest) h =
     (let (a, h1) = new_dict (map (\<lambda>(f, v). (f, Val v)) r) h;
          (items, h2) = alloc_records rest h1
      in ((k, Ref a) # items, h2))"
| "alloc_records ((k, v) # rest) h =
     (let (items, h1) = alloc_records rest h in ((k, Val v) # items, h1))"

definition alloc_config :: "pydict \<Rightarrow> store \<Rightarrow> nat \<times> store" where
  "alloc_config cfg h = (let (items, h1) = alloc_records cfg h in new_dict items h1)"

text \<open>The store once the module is imported, and where \<^verbatim>\<open>DEFAULT_CONFIG\<close> is in it.\<close>

definition module_store :: store where
  "module_store = snd (alloc_config DEFAULT_CONFIG [])"

definition DEFAULT_CONFIG_at :: nat where
  "DEFAULT_CONFIG_at = fst (alloc_config DEFAULT_CONFIG [])"

text \<open>\<^verbatim>\<open>d.copy()\<close>: a new object with the entries of the old one, references included.\<close>

definition dict_copy :: "nat \<Rightarrow> store \<Rightarrow> nat \<times> store" where
  "dict_copy a h = new_dict (obj h a) h"

text \<open>The value of the dictionary of records at an address.\<close>

definition cell_value :: "store \<Rightarrow> cell \<Rightarrow> pyval" where
  "cell_value h c =
     (case c of
        Val v \<Rightarrow> v
      | Ref a \<Rightarrow> PDict (map (\<lambda>(f, c'). (f, case c' of Val v \<Rightarrow> v | Ref _ \<Rightarrow> PNone)) (obj h a)))"

definition dict_at :: "store \<Rightarrow> nat \<Rightarrow> pydict" where
  "dict_at h a = map (\<lambda>(k, c). (k, cell_value h c)) (obj h a)"

text \<open>
  The body of the loader reads \<^verbatim>\<open>DEFAULT_CONFIG\<close> as it is when the loader runs. These
  are lines 48--85 again, with the value \<open>defaults\<close> that \<^verbatim>\<open>DEFAULT_CONFIG\<close> has at that
  time in place of the value it has when the module is imported.
\<close>

definition default_field_of :: "pydict \<Rightarrow> pykey \<Rightarrow> string \<Rightarrow> pyerr + pyval" where
  "default_field_of defaults service_name field =
     (case dict_find service_name defaults of
        None \<Rightarrow> Inl KeyError
      | Some r \<Rightarrow> py_getitem r field)"

definition chain_network_of :: "pydict \<Rightarrow> pyval \<Rightarrow> pykey \<Rightarrow> pyerr + pyval" where
  "chain_network_of defaults service_data service_name =
     bind (py_get service_data (KStr ''image'') PNone) (\<lambda>image.
       if image \<noteq> PNone then
         bind (py_split image) (\<lambda>parts.
         bind (list_item parts 1) (\<lambda>tag. Inr (PStr tag)))
       else default_field_of defaults service_name ''network'')"

definition extract_service_of :: "pydict \<Rightarrow> pykey \<Rightarrow> pyval \<Rightarrow> pydict \<Rightarrow> pyerr + pydict" where
  "extract_service_of defaults service_name service_data new_config =
     bind (default_field_of defaults service_name ''port'') (\<lambda>default_port.
     bind (py_get service_data (KStr ''ports'') default_port) (\<lambda>ports.
     bind (first_host_side ports) (\<lambda>ports.
     bind (default_field_of defaults service_name ''configuration file'') (\<lambda>default_path.
     bind (py_get service_data (KStr ''volumes'') default_path) (\<lambda>configuration_path.
     bind (first_host_side configuration_path) (\<lambda>configuration_path.
       if service_name = KStr ''justicar'' then
         bind (default_field_of defaults service_name ''name'') (\<lambda>default_name.
         bind (py_get service_data (KStr ''container_name'') default_name) (\<lambda>name.
           Inr (dict_set new_config service_name (PDict
             [(KStr ''port'', ports),
              (KStr ''configuration file'', configuration_path),
              (KStr ''name'', name)]))))
       else if service_name = KStr ''chain'' then
         bind (chain_network_of defaults service_data service_name) (\<lambda>network.
         bind (default_field_of defaults service_name ''name'') (\<lambda>default_name.
         bind (py_get service_data (KStr ''container_name'') default_name) (\<lambda>name.
           Inr (dict_set new_config service_name (PDict
             [(KStr ''port'', ports),
              (KStr ''configuration file'', configuration_path),
              (KStr ''name'', name),
              (KStr ''network'', network)])))))
       else Inr new_config))))))"

definition load_service_of :: "pydict \<Rightarrow> pyval \<Rightarrow> pydict \<Rightarrow> pykey \<Rightarrow> pyerr + pydict" where
  "load_service_of defaults data new_config service_name =
     bind (service_entry data service_name) (\<lambda>service_data.
       extract_service_of defaults service_name service_data new_config)"

fun load_services_of :: "pydict \<Rightarrow> pyval \<Rightarrow> pykey list \<Rightarrow> pydict \<Rightarrow> pyerr + pydict" where
  "load_services_of defaults data [] new_config = Inr new_config"
| "load_services_of defaults data (service_name # rest) new_config =
     (case load_service_of defaults data new_config service_name of
        Inl e \<Rightarrow> Inl e
      | Inr new_config' \<Rightarrow> load_services_of defaults data rest new_config')"

definition load_try_of :: "pydict \<Rightarrow> world \<Rightarrow> string \<Rightarrow> pyerr + pydict" where
  "load_try_of defaults w path =
     bind (read_yaml w path) (\<lambda>data.
       load_services_of defaults data (map fst defaults) [])"

text \<open>
  The loader on the store: lines 42 and 88 copy the default, line 85 returns new objects
  built from the document and from the default as the store has it.
\<close>

definition load_store :: "world \<Rightarrow> string \<Rightarrow> store \<Rightarrow> nat \<times> store" where
  "load_store w path h =
     (if files w path = None then dict_copy DEFAULT_CONFIG_at h
      else (case load_try_of (dict_at h DEFAULT_CONFIG_at) w path of
              Inl e \<Rightarrow> dict_copy DEFAULT_CONFIG_at h
            | Inr cfg \<Rightarrow> alloc_config cfg h))"

text \<open>
  \<^verbatim>\<open>cfg[service][field] = v\<close> by a caller holding the dictionary at \<open>a\<close>: the record
  object is changed in place.
\<close>

definition set_record_field :: "nat \<Rightarrow> string \<Rightarrow> string \<Rightarrow> pyval \<Rightarrow> store \<Rightarrow> pyerr + store" where
  "set_record_field a service field v h =
     (case dict_find (KStr service) (obj h a) of
        None \<Rightarrow> Inl KeyError
      | Some (Val x) \<Rightarrow> Inl TypeError
      | Some (Ref r) \<Rightarrow> Inr (h[r := dict_set (obj h r) (KStr field) (Val v)]))"

section \<open>Basic facts\<close>


lemma bind_Inl [simp]: "bind (Inl e) f = Inl e"
  by (simp add: bind_def)

lemma bind_Inr [simp]: "bind (Inr x) f = f x"
  by (simp add: bind_def)

lemma bind_eq_Inr: "bind m f = Inr y \<longleftrightarrow> (\<exists>x. m = Inr x \<and> f x = Inr y)"
  by (cases m) simp_all

lemma key_eq_KStr [simp]: "key_eq (KStr a) k \<longleftrightarrow> k = KStr a"
  by (cases k) (auto simp: key_eq_def)

lemma key_eq_KStr2 [simp]: "key_eq k (KStr a) \<longleftrightarrow> k = KStr a"
  by (cases k) (auto simp: key_eq_def)

lemma split_on_hd: "\<exists>ps. split_on c s = takeWhile (\<lambda>x. x \<noteq> c) s # ps"
  by (induction s) (auto split: list.splits)

lemma split_on_free: "c \<notin> set s \<Longrightarrow> split_on c s = [s]"
  by (induction s) auto

lemma split_on_append: "c \<notin> set s \<Longrightarrow> split_on c (s @ c # t) = s # split_on c t"
  by (induction s) auto

lemma list_item_0: "list_item (x # xs) 0 = Inr x"
  by (simp add: list_item_def)

lemma first_host_side_list:
  "first_host_side (PList (PStr s # xs)) = Inr (PStr (takeWhile (\<lambda>x. x \<noteq> CHR '':'') s))"
proof -
  obtain ps where "split_on CHR '':'' s = takeWhile (\<lambda>x. x \<noteq> CHR '':'') s # ps"
    using split_on_hd by blast
  then show ?thesis
    by (simp add: first_host_side_def list_item_0)
qed

lemma first_host_side_empty_list: "first_host_side (PList []) = Inr (PList [])"
  by (simp add: first_host_side_def)

lemma first_host_side_str:
  "first_host_side (PStr (c # s)) = Inr (PStr (if c = CHR '':'' then [] else [c]))"
  by (simp add: first_host_side_def list_item_0)

lemma extract_justicar:
  "extract_service (KStr ''justicar'') (PDict d) nc =
     bind (first_host_side (case dict_find (KStr ''ports'') d of None \<Rightarrow> PStr ''1309'' | Some v \<Rightarrow> v)) (\<lambda>p.
     bind (first_host_side (case dict_find (KStr ''volumes'') d of
                              None \<Rightarrow> PStr ''/opt/cd2n/justicar'' | Some v \<Rightarrow> v)) (\<lambda>f.
       Inr (dict_set nc (KStr ''justicar'') (PDict
         [(KStr ''port'', p), (KStr ''configuration file'', f),
          (KStr ''name'', case dict_find (KStr ''container_name'') d of
                            None \<Rightarrow> PStr ''justicar'' | Some v \<Rightarrow> v)]))))"
  by (simp add: extract_service_def default_field_def DEFAULT_CONFIG_def)

lemma chain_network_dict:
  "chain_network (PDict d) (KStr ''chain'') =
     (case dict_find (KStr ''image'') d of
        None \<Rightarrow> Inr (PStr ''testnet'')
      | Some PNone \<Rightarrow> Inr (PStr ''testnet'')
      | Some (PStr s) \<Rightarrow> bind (list_item (split_on CHR '':'' s) 1) (\<lambda>tag. Inr (PStr tag))
      | Some _ \<Rightarrow> Inl AttributeError)"
  by (simp add: chain_network_def default_field_def DEFAULT_CONFIG_def
      split: option.splits pyval.splits)

lemma extract_chain:
  "extract_service (KStr ''chain'') (PDict d) nc =
     bind (first_host_side (case dict_find (KStr ''ports'') d of None \<Rightarrow> PStr ''9944'' | Some v \<Rightarrow> v)) (\<lambda>p.
     bind (first_host_side (case dict_find (KStr ''volumes'') d of
                              None \<Rightarrow> PStr ''/opt/cd2n/chain'' | Some v \<Rightarrow> v)) (\<lambda>f.
     bind (chain_network (PDict d) (KStr ''chain'')) (\<lambda>n.
       Inr (dict_set nc (KStr ''chain'') (PDict
         [(KStr ''port'', p), (KStr ''configuration file'', f),
          (KStr ''name'', case dict_find (KStr ''container_name'') d of
                            None \<Rightarrow> PStr ''cess-chain'' | Some v \<Rightarrow> v),
          (KStr ''network'', n)])))))"
  by (simp add: extract_service_def default_field_def DEFAULT_CONFIG_def)

lemma extract_service_dict:
  "extract_service k sd nc = Inr nc' \<Longrightarrow> k = KStr ''justicar'' \<or> k = KStr ''chain'' \<Longrightarrow> \<exists>d. sd = PDict d"
  by (cases sd) (auto simp: extract_service_def bind_eq_Inr default_field_def DEFAULT_CONFIG_def)


lemma load_services_default_keys:
  "load_services data (map fst DEFAULT_CONFIG) [] = Inr cfg \<longleftrightarrow>
     (\<exists>dj dc cj. service_entry data (KStr ''justicar'') = Inr (PDict dj) \<and>
        extract_service (KStr ''justicar'') (PDict dj) [] = Inr cj \<and>
        service_entry data (KStr ''chain'') = Inr (PDict dc) \<and>
        extract_service (KStr ''chain'') (PDict dc) cj = Inr cfg)"
proof
  assume "load_services data (map fst DEFAULT_CONFIG) [] = Inr cfg"
  then obtain sj sc cj where
    a: "service_entry data (KStr ''justicar'') = Inr sj"
       "extract_service (KStr ''justicar'') sj [] = Inr cj"
       "service_entry data (KStr ''chain'') = Inr sc"
       "extract_service (KStr ''chain'') sc cj = Inr cfg"
    by (auto simp: DEFAULT_CONFIG_def load_service_def bind_eq_Inr split: sum.splits)
  from a(2) obtain dj where "sj = PDict dj"
    using extract_service_dict by blast
  moreover from a(4) obtain dc where "sc = PDict dc"
    using extract_service_dict by blast
  ultimately show "\<exists>dj dc cj. service_entry data (KStr ''justicar'') = Inr (PDict dj) \<and>
        extract_service (KStr ''justicar'') (PDict dj) [] = Inr cj \<and>
        service_entry data (KStr ''chain'') = Inr (PDict dc) \<and>
        extract_service (KStr ''chain'') (PDict dc) cj = Inr cfg"
    using a by blast
next
  assume "\<exists>dj dc cj. service_entry data (KStr ''justicar'') = Inr (PDict dj) \<and>
        extract_service (KStr ''justicar'') (PDict dj) [] = Inr cj \<and>
        service_entry data (KStr ''chain'') = Inr (PDict dc) \<and>
        extract_service (KStr ''chain'') (PDict dc) cj = Inr cfg"
  then show "load_services data (map fst DEFAULT_CONFIG) [] = Inr cfg"
    by (auto simp: DEFAULT_CONFIG_def load_service_def)
qed

lemma load_try_Document:
  "files w path = Some (Document data) \<Longrightarrow>
     load_try w path = load_services data (map fst DEFAULT_CONFIG) []"
  by (simp add: load_try_def read_yaml_def)

lemma load_services_keys:
  "load_services data (map fst DEFAULT_CONFIG) [] = Inr cfg \<Longrightarrow>
     map fst cfg = [KStr ''justicar'', KStr ''chain'']"
  by (auto simp: load_services_default_keys extract_justicar extract_chain bind_eq_Inr)

lemma dict_find_append:
  "dict_find k (xs @ ys) = (case dict_find k xs of Some v \<Rightarrow> Some v | None \<Rightarrow> dict_find k ys)"
  by (induction xs) auto

lemma service_entry_unknown:
  "\<not> key_eq s k \<Longrightarrow>
     service_entry (PDict (pre @ (KStr ''services'', PDict (sv1 @ (k, v) # sv2)) # post)) s =
     service_entry (PDict (pre @ (KStr ''services'', PDict (sv1 @ sv2)) # post)) s"
  by (simp add: service_entry_def dict_find_append split: option.splits)

lemma load_services_unknown:
  assumes "k \<noteq> KStr ''justicar''" "k \<noteq> KStr ''chain''"
  shows "load_services (PDict (pre @ (KStr ''services'', PDict (sv1 @ (k, v) # sv2)) # post))
           (map fst DEFAULT_CONFIG) [] =
         load_services (PDict (pre @ (KStr ''services'', PDict (sv1 @ sv2)) # post))
           (map fst DEFAULT_CONFIG) []"
  using assms by (simp add: DEFAULT_CONFIG_def load_service_def service_entry_unknown split: sum.splits)

section \<open>The keys of the loaded configuration\<close>

text \<open>
  C5. Whatever is at the path, the dictionary that the loader returns has the keys
  \<^verbatim>\<open>justicar\<close> and \<^verbatim>\<open>chain\<close>, in this order. A service of the document under any
  other key, wherever it stands among the services, changes nothing of the result: it
  neither shows up in it nor makes the loader fall back to the default.
\<close>

theorem load_keys_fixed:
  "map fst (load_config_from_docker_compose w path) = [KStr ''justicar'', KStr ''chain''] \<and>
   (\<forall>k v pre sv1 sv2 post. k \<noteq> KStr ''justicar'' \<longrightarrow> k \<noteq> KStr ''chain'' \<longrightarrow>
      load_config_from_docker_compose
        (w\<lparr>files := (files w)(path \<mapsto> Document (PDict
            (pre @ (KStr ''services'', PDict (sv1 @ (k, v) # sv2)) # post)))\<rparr>) path =
      load_config_from_docker_compose
        (w\<lparr>files := (files w)(path \<mapsto> Document (PDict
            (pre @ (KStr ''services'', PDict (sv1 @ sv2)) # post)))\<rparr>) path)"
proof (intro conjI allI impI)
  fix k v pre sv1 sv2 post
  assume "k \<noteq> KStr ''justicar''" "k \<noteq> KStr ''chain''"
  then show "load_config_from_docker_compose
        (w\<lparr>files := (files w)(path \<mapsto> Document (PDict
            (pre @ (KStr ''services'', PDict (sv1 @ (k, v) # sv2)) # post)))\<rparr>) path =
      load_config_from_docker_compose
        (w\<lparr>files := (files w)(path \<mapsto> Document (PDict
            (pre @ (KStr ''services'', PDict (sv1 @ sv2)) # post)))\<rparr>) path"
    by (simp add: load_config_from_docker_compose_def load_try_Document load_services_unknown)
next
  show "map fst (load_config_from_docker_compose w path) = [KStr ''justicar'', KStr ''chain'']"
  proof (cases "files w path = None \<or> (\<exists>e. load_try w path = Inl e)")
    case True
    then show ?thesis
      by (auto simp: load_config_from_docker_compose_def DEFAULT_CONFIG_def)
  next
    case False
    then obtain cfg where c: "load_try w path = Inr cfg" and f: "files w path \<noteq> None"
      by (cases "load_try w path") auto
    from c obtain data where "load_services data (map fst DEFAULT_CONFIG) [] = Inr cfg"
      by (auto simp: load_try_def bind_eq_Inr)
    then have "map fst cfg = [KStr ''justicar'', KStr ''chain'']"
      by (rule load_services_keys)
    with c f show ?thesis
      by (auto simp add: load_config_from_docker_compose_def)
  qed
qed

theorem load_keys_fixed_witness:
  "map fst (load_config_from_docker_compose
      (no_files\<lparr>files := (files no_files)(''docker-compose.yml'' \<mapsto> Document (PDict
         [(KStr ''version'', PStr ''3.9''),
          (KStr ''services'', PDict
            [(KStr ''chain'', PDict [(KStr ''image'', PStr ''cesslab/cess-chain:mainnet'')]),
             (KStr ''redis'', PDict [(KStr ''image'', PStr ''redis:7'')]),
             (KStr ''justicar'', PDict [(KStr ''ports'', PList [PStr ''8080:1309''])])])]))\<rparr>)
      ''docker-compose.yml'') = [KStr ''justicar'', KStr ''chain''] \<and>
   load_config_from_docker_compose
      (no_files\<lparr>files := (files no_files)(''docker-compose.yml'' \<mapsto> Document (PDict
         [(KStr ''version'', PStr ''3.9''),
          (KStr ''services'', PDict
            [(KStr ''chain'', PDict [(KStr ''image'', PStr ''cesslab/cess-chain:mainnet'')]),
             (KStr ''redis'', PDict [(KStr ''image'', PStr ''redis:7'')]),
             (KStr ''justicar'', PDict [(KStr ''ports'', PList [PStr ''8080:1309''])])])]))\<rparr>)
      ''docker-compose.yml'' =
   load_config_from_docker_compose
      (no_files\<lparr>files := (files no_files)(''docker-compose.yml'' \<mapsto> Document (PDict
         [(KStr ''version'', PStr ''3.9''),
          (KStr ''services'', PDict
            [(KStr ''chain'', PDict [(KStr ''image'', PStr ''cesslab/cess-chain:mainnet'')]),
             (KStr ''justicar'', PDict [(KStr ''ports'', PList [PStr ''8080:1309''])])])]))\<rparr>)
      ''docker-compose.yml''"
proof -
  note t = load_keys_fixed [of "no_files\<lparr>files := (files no_files)(''docker-compose.yml'' \<mapsto>
      Document (PDict
         [(KStr ''version'', PStr ''3.9''),
          (KStr ''services'', PDict
            [(KStr ''chain'', PDict [(KStr ''image'', PStr ''cesslab/cess-chain:mainnet'')]),
             (KStr ''redis'', PDict [(KStr ''image'', PStr ''redis:7'')]),
             (KStr ''justicar'', PDict [(KStr ''ports'', PList [PStr ''8080:1309''])])])]))\<rparr>"
      "''docker-compose.yml''"]
  have k: "KStr ''redis'' \<noteq> KStr ''justicar''" "KStr ''redis'' \<noteq> KStr ''chain''"
    by simp_all
  from t [THEN conjunct1]
    t [THEN conjunct2, rule_format, OF k,
       where v = "PDict [(KStr ''image'', PStr ''redis:7'')]"
         and pre = "[(KStr ''version'', PStr ''3.9'')]"
         and ?sv1.0 = "[(KStr ''chain'', PDict [(KStr ''image'', PStr ''cesslab/cess-chain:mainnet'')])]"
         and ?sv2.0 = "[(KStr ''justicar'', PDict [(KStr ''ports'', PList [PStr ''8080:1309''])])]"
         and post = "[]"]
  show ?thesis
    by simp
qed

lemma list_item_single: "list_item [x] (Suc 0) = Inl IndexError"
  by (simp add: list_item_def)

lemma chain_network_no_colon:
  assumes "dict_find (KStr ''image'') dc = Some (PStr s)" "CHR '':'' \<notin> set s"
  shows "chain_network (PDict dc) (KStr ''chain'') = Inl IndexError"
  using assms by (simp add: chain_network_dict split_on_free list_item_single)

lemma load_services_no_colon:
  assumes "service_entry data (KStr ''chain'') = Inr (PDict dc)"
    "dict_find (KStr ''image'') dc = Some (PStr s)" "CHR '':'' \<notin> set s"
  shows "load_services data (map fst DEFAULT_CONFIG) [] \<noteq> Inr cfg"
  using assms
  by (auto simp: load_services_default_keys extract_chain bind_eq_Inr chain_network_no_colon)

lemma load_services_not_dict:
  assumes "\<forall>items. data \<noteq> PDict items"
  shows "load_services data (map fst DEFAULT_CONFIG) [] \<noteq> Inr cfg"
  using assms
  by (cases data) (auto simp: load_services_default_keys service_entry_def)

section \<open>What the loader returns\<close>

text \<open>
  When the body of the loader raises nothing, both entries of the document are
  dictionaries and the result is made of what the extraction finds in them.
\<close>

lemma load_try_records:
  assumes "files w path = Some (Document data)" "load_try w path = Inr cfg"
  shows "\<exists>dj dc pj fj pc fc nc.
    service_entry data (KStr ''justicar'') = Inr (PDict dj) \<and>
    service_entry data (KStr ''chain'') = Inr (PDict dc) \<and>
    first_host_side (case dict_find (KStr ''ports'') dj of
                       None \<Rightarrow> PStr ''1309'' | Some v \<Rightarrow> v) = Inr pj \<and>
    first_host_side (case dict_find (KStr ''volumes'') dj of
                       None \<Rightarrow> PStr ''/opt/cd2n/justicar'' | Some v \<Rightarrow> v) = Inr fj \<and>
    first_host_side (case dict_find (KStr ''ports'') dc of
                       None \<Rightarrow> PStr ''9944'' | Some v \<Rightarrow> v) = Inr pc \<and>
    first_host_side (case dict_find (KStr ''volumes'') dc of
                       None \<Rightarrow> PStr ''/opt/cd2n/chain'' | Some v \<Rightarrow> v) = Inr fc \<and>
    chain_network (PDict dc) (KStr ''chain'') = Inr nc \<and>
    cfg =
      [(KStr ''justicar'', PDict
          [(KStr ''port'', pj),
           (KStr ''configuration file'', fj),
           (KStr ''name'', case dict_find (KStr ''container_name'') dj of
                             None \<Rightarrow> PStr ''justicar'' | Some v \<Rightarrow> v)]),
       (KStr ''chain'', PDict
          [(KStr ''port'', pc),
           (KStr ''configuration file'', fc),
           (KStr ''name'', case dict_find (KStr ''container_name'') dc of
                             None \<Rightarrow> PStr ''cess-chain'' | Some v \<Rightarrow> v),
           (KStr ''network'', nc)])]"
proof -
  from assms have "load_services data (map fst DEFAULT_CONFIG) [] = Inr cfg"
    by (simp add: load_try_Document)
  then obtain dj dc cj where
    j: "service_entry data (KStr ''justicar'') = Inr (PDict dj)"
       "extract_service (KStr ''justicar'') (PDict dj) [] = Inr cj" and
    c: "service_entry data (KStr ''chain'') = Inr (PDict dc)"
       "extract_service (KStr ''chain'') (PDict dc) cj = Inr cfg"
    unfolding load_services_default_keys by blast
  from j(2) c(2) j(1) c(1) show ?thesis
    by (auto simp: extract_justicar extract_chain bind_eq_Inr)
qed

lemma load_of_try:
  "files w path = Some f \<Longrightarrow> load_try w path = Inr cfg \<Longrightarrow>
     load_config_from_docker_compose w path = cfg"
  by (simp add: load_config_from_docker_compose_def)

text \<open>
  In every case the result has a record under \<^verbatim>\<open>justicar\<close> and one under \<^verbatim>\<open>chain\<close>,
  with the fields of each.
\<close>

lemma load_shape:
  "\<exists>dj dc. load_config_from_docker_compose w path =
       [(KStr ''justicar'', PDict dj), (KStr ''chain'', PDict dc)] \<and>
     set (map fst dj) = {KStr ''port'', KStr ''configuration file'', KStr ''name''} \<and>
     set (map fst dc) =
       {KStr ''port'', KStr ''configuration file'', KStr ''name'', KStr ''network''}"
proof (cases "files w path = None \<or> (\<exists>e. load_try w path = Inl e)")
  case True
  then have "load_config_from_docker_compose w path = DEFAULT_CONFIG"
    by (auto simp: load_config_from_docker_compose_def)
  then show ?thesis
    by (auto simp: DEFAULT_CONFIG_def)
next
  case False
  then obtain cfg f where c: "load_try w path = Inr cfg" and f: "files w path = Some f"
    by (cases "load_try w path") auto
  from c f obtain data where d: "files w path = Some (Document data)"
    by (cases f) (auto simp: load_try_def read_yaml_def)
  from load_try_records [OF d c] load_of_try [OF f c] show ?thesis
    by auto
qed

section \<open>The loader never fails\<close>

text \<open>
  The loader returns a dictionary whatever is at the path, with a record under
  \<^verbatim>\<open>justicar\<close> and one under \<^verbatim>\<open>chain\<close>: it is either the default or what the body of
  its \<^verbatim>\<open>try\<close> block built without raising. It returns the default
  when there is no file, when the file cannot be read or parsed, when the body raises
  any exception, when the document is not a dictionary, and when the image of the chain
  service has no colon.
\<close>

theorem load_absorbs_errors:
  "(\<exists>dj dc. load_config_from_docker_compose w path =
       [(KStr ''justicar'', PDict dj), (KStr ''chain'', PDict dc)] \<and>
     set (map fst dj) = {KStr ''port'', KStr ''configuration file'', KStr ''name''} \<and>
     set (map fst dc) =
       {KStr ''port'', KStr ''configuration file'', KStr ''name'', KStr ''network''}) \<and>
   (load_config_from_docker_compose w path = DEFAULT_CONFIG \<or>
      load_try w path = Inr (load_config_from_docker_compose w path)) \<and>
   (files w path = None \<longrightarrow> load_config_from_docker_compose w path = DEFAULT_CONFIG) \<and>
   (files w path = Some Unreadable \<longrightarrow> load_config_from_docker_compose w path = DEFAULT_CONFIG) \<and>
   (files w path = Some Malformed \<longrightarrow> load_config_from_docker_compose w path = DEFAULT_CONFIG) \<and>
   (\<forall>e. load_try w path = Inl e \<longrightarrow> load_config_from_docker_compose w path = DEFAULT_CONFIG) \<and>
   (\<forall>data. files w path = Some (Document data) \<longrightarrow> (\<forall>items. data \<noteq> PDict items) \<longrightarrow>
      load_config_from_docker_compose w path = DEFAULT_CONFIG) \<and>
   (\<forall>data dc s. files w path = Some (Document data) \<longrightarrow>
      service_entry data (KStr ''chain'') = Inr (PDict dc) \<longrightarrow>
      dict_find (KStr ''image'') dc = Some (PStr s) \<longrightarrow> CHR '':'' \<notin> set s \<longrightarrow>
      load_config_from_docker_compose w path = DEFAULT_CONFIG)"
proof (intro conjI allI impI)
  show "\<exists>dj dc. load_config_from_docker_compose w path =
       [(KStr ''justicar'', PDict dj), (KStr ''chain'', PDict dc)] \<and>
     set (map fst dj) = {KStr ''port'', KStr ''configuration file'', KStr ''name''} \<and>
     set (map fst dc) =
       {KStr ''port'', KStr ''configuration file'', KStr ''name'', KStr ''network''}"
    by (rule load_shape)
next
  show "load_config_from_docker_compose w path = DEFAULT_CONFIG \<or>
      load_try w path = Inr (load_config_from_docker_compose w path)"
    by (simp add: load_config_from_docker_compose_def split: sum.splits)
next
  assume "files w path = None"
  then show "load_config_from_docker_compose w path = DEFAULT_CONFIG"
    by (simp add: load_config_from_docker_compose_def)
next
  assume "files w path = Some Unreadable"
  then show "load_config_from_docker_compose w path = DEFAULT_CONFIG"
    by (simp add: load_config_from_docker_compose_def load_try_def read_yaml_def)
next
  assume "files w path = Some Malformed"
  then show "load_config_from_docker_compose w path = DEFAULT_CONFIG"
    by (simp add: load_config_from_docker_compose_def load_try_def read_yaml_def)
next
  fix e assume "load_try w path = Inl e"
  then show "load_config_from_docker_compose w path = DEFAULT_CONFIG"
    by (simp add: load_config_from_docker_compose_def)
next
  fix data assume "files w path = Some (Document data)" "\<forall>items. data \<noteq> PDict items"
  then show "load_config_from_docker_compose w path = DEFAULT_CONFIG"
    using load_services_not_dict [of data]
    by (simp add: load_config_from_docker_compose_def load_try_Document split: sum.splits)
next
  fix data dc s
  assume "files w path = Some (Document data)"
    "service_entry data (KStr ''chain'') = Inr (PDict dc)"
    "dict_find (KStr ''image'') dc = Some (PStr s)" "CHR '':'' \<notin> set s"
  then show "load_config_from_docker_compose w path = DEFAULT_CONFIG"
    using load_services_no_colon [of data dc s]
    by (simp add: load_config_from_docker_compose_def load_try_Document split: sum.splits)
qed


lemmas load_eval =
  load_config_from_docker_compose_def load_try_def read_yaml_def no_files_def
  load_service_def service_entry_def extract_justicar extract_chain chain_network_dict
  first_host_side_list first_host_side_empty_list first_host_side_str list_item_def

theorem load_absorbs_errors_witness:
  "files no_files ''docker-compose.yml'' = None \<and>
   load_config_from_docker_compose no_files ''docker-compose.yml'' = DEFAULT_CONFIG \<and>
   load_config_from_docker_compose
     (no_files\<lparr>files := (files no_files)(''docker-compose.yml'' \<mapsto> Unreadable)\<rparr>)
     ''docker-compose.yml'' = DEFAULT_CONFIG \<and>
   load_config_from_docker_compose
     (no_files\<lparr>files := (files no_files)(''docker-compose.yml'' \<mapsto> Malformed)\<rparr>)
     ''docker-compose.yml'' = DEFAULT_CONFIG \<and>
   load_config_from_docker_compose
     (no_files\<lparr>files := (files no_files)(''docker-compose.yml'' \<mapsto> Document (PStr ''services''))\<rparr>)
     ''docker-compose.yml'' = DEFAULT_CONFIG \<and>
   service_entry (PDict [(KStr ''services'', PDict
        [(KStr ''chain'', PDict [(KStr ''image'', PStr ''cess-chain'')])])]) (KStr ''chain'') =
     Inr (PDict [(KStr ''image'', PStr ''cess-chain'')]) \<and>
   CHR '':'' \<notin> set ''cess-chain'' \<and>
   load_config_from_docker_compose
     (no_files\<lparr>files := (files no_files)(''docker-compose.yml'' \<mapsto> Document (PDict
        [(KStr ''services'', PDict
           [(KStr ''chain'', PDict [(KStr ''image'', PStr ''cess-chain'')])])]))\<rparr>)
     ''docker-compose.yml'' = DEFAULT_CONFIG"
proof -
  have a: "files no_files ''docker-compose.yml'' = None"
    by (simp add: no_files_def)
  have b: "service_entry (PDict [(KStr ''services'', PDict
        [(KStr ''chain'', PDict [(KStr ''image'', PStr ''cess-chain'')])])]) (KStr ''chain'') =
     Inr (PDict [(KStr ''image'', PStr ''cess-chain'')])"
    by (simp add: service_entry_def)
  have c: "CHR '':'' \<notin> set ''cess-chain''"
    by simp
  note t1 = load_absorbs_errors [of no_files "''docker-compose.yml''"]
  note t2 = load_absorbs_errors
    [of "no_files\<lparr>files := (files no_files)(''docker-compose.yml'' \<mapsto> Unreadable)\<rparr>"
      "''docker-compose.yml''"]
  note t3 = load_absorbs_errors
    [of "no_files\<lparr>files := (files no_files)(''docker-compose.yml'' \<mapsto> Malformed)\<rparr>"
      "''docker-compose.yml''"]
  note t4 = load_absorbs_errors
    [of "no_files\<lparr>files := (files no_files)(''docker-compose.yml'' \<mapsto> Document (PStr ''services''))\<rparr>"
      "''docker-compose.yml''"]
  note t5 = load_absorbs_errors
    [of "no_files\<lparr>files := (files no_files)(''docker-compose.yml'' \<mapsto> Document (PDict
        [(KStr ''services'', PDict
           [(KStr ''chain'', PDict [(KStr ''image'', PStr ''cess-chain'')])])]))\<rparr>"
      "''docker-compose.yml''"]
  from a b c t1 t2 t3 t4 t5 show ?thesis
    by simp
qed

section \<open>Results that are not configuration models\<close>

lemma default_is_model: "config_model DEFAULT_CONFIG"
  by (auto simp: config_model_def has_keys_def justicar_record_def chain_record_def
      str_field_def DEFAULT_CONFIG_def)

text \<open>
  C7. No exception leaves the loader, and after an exception of its body the result is
  the default. But the result is not always a configuration model. When the body raises
  nothing, the record holds what the extraction found: the empty list of \<^verbatim>\<open>ports: []\<close>
  as the port, the number or \<^verbatim>\<open>None\<close> of a \<^verbatim>\<open>container_name\<close> as the name. The
  default itself is a configuration model.
\<close>

theorem load_returns_non_model:
  "load_try
     (no_files\<lparr>files := (files no_files)(''docker-compose.yml'' \<mapsto> Document (PDict
        [(KStr ''services'', PDict
           [(KStr ''justicar'', PDict [(KStr ''ports'', PList [])])])]))\<rparr>)
     ''docker-compose.yml'' =
     Inr [(KStr ''justicar'', PDict
             [(KStr ''port'', PList []),
              (KStr ''configuration file'', PStr ''/''),
              (KStr ''name'', PStr ''justicar'')]),
          (KStr ''chain'', PDict
             [(KStr ''port'', PStr ''9''),
              (KStr ''configuration file'', PStr ''/''),
              (KStr ''name'', PStr ''cess-chain''),
              (KStr ''network'', PStr ''testnet'')])] \<and>
   \<not> config_model (load_config_from_docker_compose
     (no_files\<lparr>files := (files no_files)(''docker-compose.yml'' \<mapsto> Document (PDict
        [(KStr ''services'', PDict
           [(KStr ''justicar'', PDict [(KStr ''ports'', PList [])])])]))\<rparr>)
     ''docker-compose.yml'') \<and>
   load_try
     (no_files\<lparr>files := (files no_files)(''docker-compose.yml'' \<mapsto> Document (PDict
        [(KStr ''services'', PDict
           [(KStr ''justicar'', PDict
              [(KStr ''container_name'', PInt 7),
               (KStr ''ports'', PList [PStr ''8080:1309'']),
               (KStr ''volumes'', PList [PStr ''/data/justicar:/opt/justicar/backups''])]),
            (KStr ''chain'', PDict
              [(KStr ''container_name'', PNone),
               (KStr ''image'', PStr ''cesslab/cess-chain:mainnet''),
               (KStr ''ports'', PList [PStr ''9955:9944'', PStr ''30336:30336'']),
               (KStr ''volumes'', PList [PStr ''/data/chain:/opt/cess/data''])])])]))\<rparr>)
     ''docker-compose.yml'' =
     Inr [(KStr ''justicar'', PDict
             [(KStr ''port'', PStr ''8080''),
              (KStr ''configuration file'', PStr ''/data/justicar''),
              (KStr ''name'', PInt 7)]),
          (KStr ''chain'', PDict
             [(KStr ''port'', PStr ''9955''),
              (KStr ''configuration file'', PStr ''/data/chain''),
              (KStr ''name'', PNone),
              (KStr ''network'', PStr ''mainnet'')])] \<and>
   \<not> config_model (load_config_from_docker_compose
     (no_files\<lparr>files := (files no_files)(''docker-compose.yml'' \<mapsto> Document (PDict
        [(KStr ''services'', PDict
           [(KStr ''justicar'', PDict
              [(KStr ''container_name'', PInt 7),
               (KStr ''ports'', PList [PStr ''8080:1309'']),
               (KStr ''volumes'', PList [PStr ''/data/justicar:/opt/justicar/backups''])]),
            (KStr ''chain'', PDict
              [(KStr ''container_name'', PNone),
               (KStr ''image'', PStr ''cesslab/cess-chain:mainnet''),
               (KStr ''ports'', PList [PStr ''9955:9944'', PStr ''30336:30336'']),
               (KStr ''volumes'', PList [PStr ''/data/chain:/opt/cess/data''])])])]))\<rparr>)
     ''docker-compose.yml'') \<and>
   config_model DEFAULT_CONFIG"
  using default_is_model
  by (simp add: load_eval DEFAULT_CONFIG_def config_model_def justicar_record_def
      chain_record_def str_field_def)

section \<open>A document without services\<close>

lemma load_no_services:
  assumes "files w path = Some (Document (PDict items))" "dict_find (KStr ''services'') items = None"
  shows "load_config_from_docker_compose w path =
    [(KStr ''justicar'', PDict
        [(KStr ''port'', PStr ''1''),
         (KStr ''configuration file'', PStr ''/''),
         (KStr ''name'', PStr ''justicar'')]),
     (KStr ''chain'', PDict
        [(KStr ''port'', PStr ''9''),
         (KStr ''configuration file'', PStr ''/''),
         (KStr ''name'', PStr ''cess-chain''),
         (KStr ''network'', PStr ''testnet'')])]"
  using assms by (simp add: load_eval DEFAULT_CONFIG_def)

text \<open>
  C2. With no file and with an empty file the loader returns the default. With a file
  that parses to a dictionary without the key \<^verbatim>\<open>services\<close> it returns the first
  character of each default port and path instead, which is not equal to the default.
\<close>

theorem load_missing_services_key:
  "load_config_from_docker_compose no_files ''docker-compose.yml'' = DEFAULT_CONFIG \<and>
   load_config_from_docker_compose
     (no_files\<lparr>files := (files no_files)(''docker-compose.yml'' \<mapsto> empty_file)\<rparr>)
     ''docker-compose.yml'' = DEFAULT_CONFIG \<and>
   load_config_from_docker_compose
     (no_files\<lparr>files := (files no_files)(''docker-compose.yml'' \<mapsto>
        Document (PDict [(KStr ''version'', PStr ''3.9'')]))\<rparr>)
     ''docker-compose.yml'' =
    [(KStr ''justicar'', PDict
        [(KStr ''port'', PStr ''1''),
         (KStr ''configuration file'', PStr ''/''),
         (KStr ''name'', PStr ''justicar'')]),
     (KStr ''chain'', PDict
        [(KStr ''port'', PStr ''9''),
         (KStr ''configuration file'', PStr ''/''),
         (KStr ''name'', PStr ''cess-chain''),
         (KStr ''network'', PStr ''testnet'')])] \<and>
   \<not> py_eq
     (PDict (load_config_from_docker_compose
        (no_files\<lparr>files := (files no_files)(''docker-compose.yml'' \<mapsto>
           Document (PDict [(KStr ''version'', PStr ''3.9'')]))\<rparr>)
        ''docker-compose.yml''))
     (PDict DEFAULT_CONFIG)"
  by (simp add: load_eval empty_file_def DEFAULT_CONFIG_def)

section \<open>Empty and absent sequences\<close>

lemmas save_eval =
  save_config_to_docker_compose_def justicar_service_def chain_service_def
  chain_command_def docker_compose_data_def

text \<open>
  C10. When the body of the loader raises nothing, a service whose entry has no
  \<^verbatim>\<open>ports\<close> gets the first character of its default port as its port (\<^verbatim>\<open>"1"\<close> for
  \<^verbatim>\<open>justicar\<close>, \<^verbatim>\<open>"9"\<close> for \<^verbatim>\<open>chain\<close>), and one whose entry has no \<^verbatim>\<open>volumes\<close> gets
  \<^verbatim>\<open>"/"\<close> as its configuration file: the default string is indexed like a sequence.
\<close>

theorem absent_sequence_first_character:
  assumes "files w path = Some (Document data)" and "load_try w path = Inr cfg"
  shows "load_config_from_docker_compose w path = cfg \<and>
    (\<forall>dj. service_entry data (KStr ''justicar'') = Inr (PDict dj) \<longrightarrow>
       (dict_find (KStr ''ports'') dj = None \<longrightarrow>
          bind (py_getitem (PDict cfg) ''justicar'') (\<lambda>r. py_getitem r ''port'') =
            Inr (PStr ''1'')) \<and>
       (dict_find (KStr ''volumes'') dj = None \<longrightarrow>
          bind (py_getitem (PDict cfg) ''justicar'') (\<lambda>r. py_getitem r ''configuration file'') =
            Inr (PStr ''/''))) \<and>
    (\<forall>dc. service_entry data (KStr ''chain'') = Inr (PDict dc) \<longrightarrow>
       (dict_find (KStr ''ports'') dc = None \<longrightarrow>
          bind (py_getitem (PDict cfg) ''chain'') (\<lambda>r. py_getitem r ''port'') =
            Inr (PStr ''9'')) \<and>
       (dict_find (KStr ''volumes'') dc = None \<longrightarrow>
          bind (py_getitem (PDict cfg) ''chain'') (\<lambda>r. py_getitem r ''configuration file'') =
            Inr (PStr ''/'')))"
proof -
  from load_try_records [OF assms] obtain dj dc pj fj pc fc nc where
    r: "service_entry data (KStr ''justicar'') = Inr (PDict dj)"
       "service_entry data (KStr ''chain'') = Inr (PDict dc)"
       "first_host_side (case dict_find (KStr ''ports'') dj of
                       None \<Rightarrow> PStr ''1309'' | Some v \<Rightarrow> v) = Inr pj"
       "first_host_side (case dict_find (KStr ''volumes'') dj of
                       None \<Rightarrow> PStr ''/opt/cd2n/justicar'' | Some v \<Rightarrow> v) = Inr fj"
       "first_host_side (case dict_find (KStr ''ports'') dc of
                       None \<Rightarrow> PStr ''9944'' | Some v \<Rightarrow> v) = Inr pc"
       "first_host_side (case dict_find (KStr ''volumes'') dc of
                       None \<Rightarrow> PStr ''/opt/cd2n/chain'' | Some v \<Rightarrow> v) = Inr fc" and
    cfg: "cfg =
      [(KStr ''justicar'', PDict
          [(KStr ''port'', pj),
           (KStr ''configuration file'', fj),
           (KStr ''name'', case dict_find (KStr ''container_name'') dj of
                             None \<Rightarrow> PStr ''justicar'' | Some v \<Rightarrow> v)]),
       (KStr ''chain'', PDict
          [(KStr ''port'', pc),
           (KStr ''configuration file'', fc),
           (KStr ''name'', case dict_find (KStr ''container_name'') dc of
                             None \<Rightarrow> PStr ''cess-chain'' | Some v \<Rightarrow> v),
           (KStr ''network'', nc)])]"
    by blast
  have "load_config_from_docker_compose w path = cfg"
    using assms by (rule load_of_try)
  moreover have "bind (py_getitem (PDict cfg) ''justicar'') (\<lambda>r. py_getitem r ''port'') = Inr pj"
    "bind (py_getitem (PDict cfg) ''justicar'') (\<lambda>r. py_getitem r ''configuration file'') = Inr fj"
    "bind (py_getitem (PDict cfg) ''chain'') (\<lambda>r. py_getitem r ''port'') = Inr pc"
    "bind (py_getitem (PDict cfg) ''chain'') (\<lambda>r. py_getitem r ''configuration file'') = Inr fc"
    by (simp_all add: cfg)
  ultimately show ?thesis
    using r by (auto simp: first_host_side_str)
qed

theorem absent_sequence_first_character_witness:
  "files (no_files\<lparr>files := (files no_files)(''docker-compose.yml'' \<mapsto> Document (PDict
       [(KStr ''services'', PDict
          [(KStr ''justicar'', PDict [(KStr ''container_name'', PStr ''j1'')]),
           (KStr ''chain'', PDict [(KStr ''image'', PStr ''cesslab/cess-chain:mainnet'')])])]))\<rparr>)
     ''docker-compose.yml'' =
     Some (Document (PDict
       [(KStr ''services'', PDict
          [(KStr ''justicar'', PDict [(KStr ''container_name'', PStr ''j1'')]),
           (KStr ''chain'', PDict [(KStr ''image'', PStr ''cesslab/cess-chain:mainnet'')])])])) \<and>
   service_entry (PDict
       [(KStr ''services'', PDict
          [(KStr ''justicar'', PDict [(KStr ''container_name'', PStr ''j1'')]),
           (KStr ''chain'', PDict [(KStr ''image'', PStr ''cesslab/cess-chain:mainnet'')])])])
     (KStr ''justicar'') = Inr (PDict [(KStr ''container_name'', PStr ''j1'')]) \<and>
   dict_find (KStr ''ports'') [(KStr ''container_name'', PStr ''j1'')] = None \<and>
   dict_find (KStr ''volumes'') [(KStr ''container_name'', PStr ''j1'')] = None \<and>
   load_config_from_docker_compose
     (no_files\<lparr>files := (files no_files)(''docker-compose.yml'' \<mapsto> Document (PDict
       [(KStr ''services'', PDict
          [(KStr ''justicar'', PDict [(KStr ''container_name'', PStr ''j1'')]),
           (KStr ''chain'', PDict [(KStr ''image'', PStr ''cesslab/cess-chain:mainnet'')])])]))\<rparr>)
     ''docker-compose.yml'' =
     [(KStr ''justicar'', PDict
         [(KStr ''port'', PStr ''1''),
          (KStr ''configuration file'', PStr ''/''),
          (KStr ''name'', PStr ''j1'')]),
      (KStr ''chain'', PDict
         [(KStr ''port'', PStr ''9''),
          (KStr ''configuration file'', PStr ''/''),
          (KStr ''name'', PStr ''cess-chain''),
          (KStr ''network'', PStr ''mainnet'')])]"
proof -
  let ?data = "PDict
       [(KStr ''services'', PDict
          [(KStr ''justicar'', PDict [(KStr ''container_name'', PStr ''j1'')]),
           (KStr ''chain'', PDict [(KStr ''image'', PStr ''cesslab/cess-chain:mainnet'')])])]"
  let ?w = "no_files\<lparr>files := (files no_files)(''docker-compose.yml'' \<mapsto> Document ?data)\<rparr>"
  let ?cfg = "[(KStr ''justicar'', PDict
         [(KStr ''port'', PStr ''1''),
          (KStr ''configuration file'', PStr ''/''),
          (KStr ''name'', PStr ''j1'')]),
      (KStr ''chain'', PDict
         [(KStr ''port'', PStr ''9''),
          (KStr ''configuration file'', PStr ''/''),
          (KStr ''name'', PStr ''cess-chain''),
          (KStr ''network'', PStr ''mainnet'')])]"
  have f: "files ?w ''docker-compose.yml'' = Some (Document ?data)"
    by simp
  have t: "load_try ?w ''docker-compose.yml'' = Inr ?cfg"
    by (simp add: load_eval DEFAULT_CONFIG_def)
  have e: "service_entry ?data (KStr ''justicar'') =
      Inr (PDict [(KStr ''container_name'', PStr ''j1'')])"
    by (simp add: service_entry_def)
  from absent_sequence_first_character [OF f t] e show ?thesis
    by simp
qed

text \<open>
  Without that condition the statement fails: here the entry of \<^verbatim>\<open>justicar\<close> has
  neither \<^verbatim>\<open>ports\<close> nor \<^verbatim>\<open>volumes\<close>, the image of \<^verbatim>\<open>chain\<close> has no colon, and the
  loader returns the whole default, port \<^verbatim>\<open>"1309"\<close> included.
\<close>

theorem absent_sequence_counterexample:
  "service_entry (PDict
       [(KStr ''services'', PDict
          [(KStr ''justicar'', PDict [(KStr ''container_name'', PStr ''j1'')]),
           (KStr ''chain'', PDict [(KStr ''image'', PStr ''cess-chain'')])])])
     (KStr ''justicar'') = Inr (PDict [(KStr ''container_name'', PStr ''j1'')]) \<and>
   dict_find (KStr ''ports'') [(KStr ''container_name'', PStr ''j1'')] = None \<and>
   dict_find (KStr ''volumes'') [(KStr ''container_name'', PStr ''j1'')] = None \<and>
   bind (py_getitem (PDict (load_config_from_docker_compose
     (no_files\<lparr>files := (files no_files)(''docker-compose.yml'' \<mapsto> Document (PDict
       [(KStr ''services'', PDict
          [(KStr ''justicar'', PDict [(KStr ''container_name'', PStr ''j1'')]),
           (KStr ''chain'', PDict [(KStr ''image'', PStr ''cess-chain'')])])]))\<rparr>)
     ''docker-compose.yml'')) ''justicar'') (\<lambda>r. py_getitem r ''port'') = Inr (PStr ''1309'') \<and>
   bind (py_getitem (PDict (load_config_from_docker_compose
     (no_files\<lparr>files := (files no_files)(''docker-compose.yml'' \<mapsto> Document (PDict
       [(KStr ''services'', PDict
          [(KStr ''justicar'', PDict [(KStr ''container_name'', PStr ''j1'')]),
           (KStr ''chain'', PDict [(KStr ''image'', PStr ''cess-chain'')])])]))\<rparr>)
     ''docker-compose.yml'')) ''justicar'') (\<lambda>r. py_getitem r ''configuration file'') =
     Inr (PStr ''/opt/cd2n/justicar'')"
  by (simp add: load_eval DEFAULT_CONFIG_def)

section \<open>Empty sequences\<close>

lemma load_try_empty_ports:
  assumes "files w path = Some (Document data)" "load_try w path = Inr cfg"
    "service_entry data (KStr ''justicar'') = Inr (PDict dj)"
    "dict_find (KStr ''ports'') dj = Some (PList [])"
  shows "bind (py_getitem (PDict cfg) ''justicar'') (\<lambda>r. py_getitem r ''port'') = Inr (PList [])"
  using load_try_records [OF assms(1,2)] assms(3,4)
  by (auto simp: first_host_side_empty_list)

text \<open>
  C3. A document whose \<^verbatim>\<open>justicar\<close> has \<^verbatim>\<open>ports: []\<close> and whose \<^verbatim>\<open>chain\<close> has
  \<^verbatim>\<open>volumes: []\<close>: the loader does not raise, and the other fields are read as usual,
  but the port and the path are the empty lists themselves, not the defaults. Saving
  that configuration raises a \<^verbatim>\<open>TypeError\<close>.
\<close>

theorem load_empty_sequences:
  "load_config_from_docker_compose
     (no_files\<lparr>files := (files no_files)(''docker-compose.yml'' \<mapsto> Document (PDict
       [(KStr ''services'', PDict
          [(KStr ''justicar'', PDict
              [(KStr ''container_name'', PStr ''j1''),
               (KStr ''ports'', PList []),
               (KStr ''volumes'', PList [PStr ''/data/justicar:/opt/justicar/backups''])]),
           (KStr ''chain'', PDict
              [(KStr ''container_name'', PStr ''c1''),
               (KStr ''image'', PStr ''cesslab/cess-chain:mainnet''),
               (KStr ''ports'', PList [PStr ''9955:9944'', PStr ''30336:30336'']),
               (KStr ''volumes'', PList [])])])]))\<rparr>)
     ''docker-compose.yml'' =
     [(KStr ''justicar'', PDict
         [(KStr ''port'', PList []),
          (KStr ''configuration file'', PStr ''/data/justicar''),
          (KStr ''name'', PStr ''j1'')]),
      (KStr ''chain'', PDict
         [(KStr ''port'', PStr ''9955''),
          (KStr ''configuration file'', PList []),
          (KStr ''name'', PStr ''c1''),
          (KStr ''network'', PStr ''mainnet'')])] \<and>
   save_config_to_docker_compose
     [(KStr ''justicar'', PDict
         [(KStr ''port'', PList []),
          (KStr ''configuration file'', PStr ''/data/justicar''),
          (KStr ''name'', PStr ''j1'')]),
      (KStr ''chain'', PDict
         [(KStr ''port'', PStr ''9955''),
          (KStr ''configuration file'', PList []),
          (KStr ''name'', PStr ''c1''),
          (KStr ''network'', PStr ''mainnet'')])]
     ''docker-compose.yml'' no_files = Inl TypeError"
  by (simp add: load_eval save_eval DEFAULT_CONFIG_def)

section \<open>The default and its copies share their records\<close>

lemmas store_defs =
  module_store_def DEFAULT_CONFIG_at_def alloc_config_def new_dict_def dict_copy_def
  dict_at_def cell_value_def obj_def set_record_field_def no_files_def
  DEFAULT_CONFIG_def

lemmas store_eval = store_defs load_store_def

lemma module_store_value: "dict_at module_store DEFAULT_CONFIG_at = DEFAULT_CONFIG"
  by (simp add: store_eval)

text \<open>With the default as the module leaves it, the body of the loader is the one above.\<close>

lemma default_field_of_DEFAULT: "default_field_of DEFAULT_CONFIG = default_field"
  by (intro ext) (simp add: default_field_of_def default_field_def)

lemma chain_network_of_DEFAULT: "chain_network_of DEFAULT_CONFIG = chain_network"
  by (intro ext)
    (simp add: chain_network_of_def chain_network_def default_field_of_DEFAULT cong: if_cong)

lemma extract_service_of_DEFAULT: "extract_service_of DEFAULT_CONFIG = extract_service"
  by (intro ext)
    (simp add: extract_service_of_def extract_service_def default_field_of_DEFAULT
      chain_network_of_DEFAULT cong: if_cong)

lemma load_service_of_DEFAULT: "load_service_of DEFAULT_CONFIG = load_service"
  by (intro ext) (simp add: load_service_of_def load_service_def extract_service_of_DEFAULT)

lemma load_services_of_DEFAULT:
  "load_services_of DEFAULT_CONFIG data names built = load_services data names built"
  by (induction names arbitrary: built)
    (simp_all add: load_service_of_DEFAULT split: sum.splits)

lemma load_try_of_DEFAULT: "load_try_of DEFAULT_CONFIG w path = load_try w path"
  by (simp add: load_try_of_def load_try_def load_services_of_DEFAULT)

lemma load_store_module:
  "load_store w path module_store =
     (if files w path = None then dict_copy DEFAULT_CONFIG_at module_store
      else (case load_try w path of
              Inl e \<Rightarrow> dict_copy DEFAULT_CONFIG_at module_store
            | Inr cfg \<Rightarrow> alloc_config cfg module_store))"
  by (simp add: load_store_def module_store_value load_try_of_DEFAULT)

lemma load_store_default_value:
  "files w path = None \<Longrightarrow>
     (case load_store w path module_store of (a, h) \<Rightarrow> dict_at h a) =
       load_config_from_docker_compose w path"
  unfolding load_store_module
  by (simp add: store_defs load_config_from_docker_compose_def)

text \<open>On the store as the module leaves it, the loader returns the value computed above.\<close>

lemma load_store_value:
  "(case load_store w path module_store of (a, h) \<Rightarrow> dict_at h a) =
     load_config_from_docker_compose w path"
proof (cases "files w path = None \<or> (\<exists>e. load_try w path = Inl e)")
  case True
  then show ?thesis
    unfolding load_store_module
    by (auto simp: store_defs load_config_from_docker_compose_def)
next
  case False
  then obtain cfg f where c: "load_try w path = Inr cfg" and f: "files w path = Some f"
    by (cases "load_try w path") auto
  from c f obtain data where d: "files w path = Some (Document data)"
    by (cases f) (auto simp: load_try_def read_yaml_def)
  from load_try_records [OF d c] c f show ?thesis
    unfolding load_store_module
    by (auto simp: store_defs load_config_from_docker_compose_def)
qed

text \<open>
  After a caller has changed a record of the default, a load from a file reads the
  changed default as well: the port of a service without \<^verbatim>\<open>ports\<close> is the first
  character of the new default port.
\<close>

lemma load_store_reads_changed_default:
  "(case load_store no_files ''docker-compose.yml'' module_store of
      (a, h) \<Rightarrow>
        (case set_record_field a ''justicar'' ''port'' (PStr ''8080'') h of
           Inl e \<Rightarrow> False
         | Inr h' \<Rightarrow>
             (case load_store
                (no_files\<lparr>files := (files no_files)(''docker-compose.yml'' \<mapsto>
                   Document (PDict [(KStr ''services'', PDict [])]))\<rparr>)
                ''docker-compose.yml'' h' of
                (a', h'') \<Rightarrow>
                  dict_at h'' a' =
                    [(KStr ''justicar'', PDict
                        [(KStr ''port'', PStr ''8''),
                         (KStr ''configuration file'', PStr ''/''),
                         (KStr ''name'', PStr ''justicar'')]),
                     (KStr ''chain'', PDict
                        [(KStr ''port'', PStr ''9''),
                         (KStr ''configuration file'', PStr ''/''),
                         (KStr ''name'', PStr ''cess-chain''),
                         (KStr ''network'', PStr ''testnet'')])])))"
  by (simp add: store_eval load_try_of_def read_yaml_def load_service_of_def service_entry_def
      extract_service_of_def default_field_of_def chain_network_of_def first_host_side_str
      alloc_config_def)

text \<open>
  C9. The loader returns the default for a path with no file. The caller then sets the
  port of \<^verbatim>\<open>justicar\<close> in the dictionary it was given. The copy was shallow, so the
  record is the one \<^verbatim>\<open>DEFAULT_CONFIG\<close> refers to: the default now has the new port, and
  so has the dictionary that the next load returns for a path with no file.
\<close>

theorem default_copy_shares_records:
  "(case load_store no_files ''docker-compose.yml'' module_store of
      (a, h) \<Rightarrow>
        dict_at h a = DEFAULT_CONFIG \<and>
        (case set_record_field a ''justicar'' ''port'' (PStr ''8080'') h of
           Inl e \<Rightarrow> False
         | Inr h' \<Rightarrow>
             dict_at h' DEFAULT_CONFIG_at =
               [(KStr ''justicar'', PDict
                   [(KStr ''port'', PStr ''8080''),
                    (KStr ''configuration file'', PStr ''/opt/cd2n/justicar''),
                    (KStr ''name'', PStr ''justicar'')]),
                (KStr ''chain'', PDict
                   [(KStr ''name'', PStr ''cess-chain''),
                    (KStr ''port'', PStr ''9944''),
                    (KStr ''network'', PStr ''testnet''),
                    (KStr ''configuration file'', PStr ''/opt/cd2n/chain'')])] \<and>
             (case load_store no_files ''docker-compose.yml'' h' of
                (a', h'') \<Rightarrow>
                  dict_at h'' a' = dict_at h' DEFAULT_CONFIG_at \<and>
                  dict_at h'' a' \<noteq> DEFAULT_CONFIG)))"
  by (simp add: store_eval)

section \<open>The writer on well-formed records\<close>

lemma str_field_Some:
  "str_field r k = Some s \<longleftrightarrow> (\<exists>d. r = PDict d \<and> dict_find (KStr k) d = Some (PStr s))"
  by (auto simp: str_field_def split: pyval.splits option.splits)

lemma justicar_service_record:
  assumes "str_field r ''port'' = Some p" "str_field r ''configuration file'' = Some f"
    "str_field r ''name'' = Some n"
  shows "justicar_service r = Inr (PDict
         [(KStr ''image'', PStr ''cdn:latest''),
          (KStr ''container_name'', PStr n),
          (KStr ''devices'', PList
             [PStr ''/dev/sgx_enclave:/dev/sgx_enclave'',
              PStr ''/dev/sgx_provision:/dev/sgx_provision'']),
          (KStr ''ports'', PList [PStr (p @ '':1309'')]),
          (KStr ''volumes'', PList [PStr (f @ '':/opt/justicar/backups'')]),
          (KStr ''networks'', PList [PStr ''cd2n'']),
          (KStr ''stdin_open'', PBool True),
          (KStr ''tty'', PBool True)])"
  using assms by (auto simp: str_field_Some justicar_service_def)

lemma chain_service_record:
  assumes "str_field r ''port'' = Some p" "str_field r ''configuration file'' = Some f"
    "str_field r ''name'' = Some n" "str_field r ''network'' = Some t"
  shows "chain_service r = Inr (PDict
         [(KStr ''image'', PStr (''cesslab/cess-chain:'' @ t)),
          (KStr ''volumes'', PList [PStr (f @ '':/opt/cess/data'')]),
          (KStr ''command'', PList (chain_command (PStr (''cess-'' @ t)))),
          (KStr ''logging'', PDict
             [(KStr ''driver'', PStr ''json-file''),
              (KStr ''options'', PDict
                 [(KStr ''max-size'', PStr ''300m''),
                  (KStr ''max-file'', PStr ''10'')])]),
          (KStr ''networks'', PList [PStr ''cd2n'']),
          (KStr ''container_name'', PStr n),
          (KStr ''ports'', PList [PStr (p @ '':9944''), PStr ''30336:30336''])])"
  using assms by (auto simp: str_field_Some chain_service_def)

text \<open>
  C6. For every record of \<^verbatim>\<open>chain\<close> whose network is \<^verbatim>\<open>testnet\<close>, the writer builds a
  service definition, and its \<^verbatim>\<open>command\<close> is the fixed argument list around
  \<^verbatim>\<open>cess-testnet\<close>: \<^verbatim>\<open>--chain\<close> stands right before \<^verbatim>\<open>cess-testnet\<close> in it, and
  \<^verbatim>\<open>--base-path\<close> right before \<^verbatim>\<open>/opt/cess/data\<close> exactly once.
\<close>

theorem chain_command_contract:
  assumes "chain_record r" and "str_field r ''network'' = Some ''testnet''"
  shows "\<exists>svc cmd.
    chain_service r = Inr (PDict svc) \<and>
    save_services [(KStr ''chain'', r)] [] = Inr [(KStr ''chain'', PDict svc)] \<and>
    dict_find (KStr ''command'') svc = Some (PList cmd) \<and>
    cmd = chain_command (PStr ''cess-testnet'') \<and>
    (PStr ''--chain'', PStr ''cess-testnet'') \<in> set (zip cmd (tl cmd)) \<and>
    count_list (zip cmd (tl cmd)) (PStr ''--base-path'', PStr ''/opt/cess/data'') = 1"
proof -
  from assms obtain p f n where
    "str_field r ''port'' = Some p" "str_field r ''configuration file'' = Some f"
    "str_field r ''name'' = Some n"
    by (auto simp: chain_record_def)
  from chain_service_record [OF this assms(2)] show ?thesis
    by (simp add: chain_command_def)
qed

theorem chain_command_contract_witness:
  "chain_record (PDict
     [(KStr ''name'', PStr ''cess-chain''),
      (KStr ''port'', PStr ''9944''),
      (KStr ''network'', PStr ''testnet''),
      (KStr ''configuration file'', PStr ''/opt/cd2n/chain'')]) \<and>
   (\<exists>svc cmd.
      chain_service (PDict
        [(KStr ''name'', PStr ''cess-chain''),
         (KStr ''port'', PStr ''9944''),
         (KStr ''network'', PStr ''testnet''),
         (KStr ''configuration file'', PStr ''/opt/cd2n/chain'')]) = Inr (PDict svc) \<and>
      dict_find (KStr ''command'') svc = Some (PList cmd) \<and>
      (PStr ''--chain'', PStr ''cess-testnet'') \<in> set (zip cmd (tl cmd)) \<and>
      count_list (zip cmd (tl cmd)) (PStr ''--base-path'', PStr ''/opt/cess/data'') = 1)"
proof -
  let ?r = "PDict
     [(KStr ''name'', PStr ''cess-chain''),
      (KStr ''port'', PStr ''9944''),
      (KStr ''network'', PStr ''testnet''),
      (KStr ''configuration file'', PStr ''/opt/cd2n/chain'')]"
  have a: "chain_record ?r"
    by (simp add: chain_record_def str_field_def)
  have b: "str_field ?r ''network'' = Some ''testnet''"
    by (simp add: str_field_def)
  from chain_command_contract [OF a b] a show ?thesis
    by blast
qed

section \<open>Unsupported keys in the writer\<close>

lemma save_services_skip:
  "save_services cfg acc =
     save_services (filter (\<lambda>e. fst e = KStr ''justicar'' \<or> fst e = KStr ''chain'') cfg) acc"
  by (induction cfg arbitrary: acc) (auto split: sum.splits)


lemma dict_find_KStr_None: "KStr a \<notin> fst ` set d \<Longrightarrow> dict_find (KStr a) d = None"
  by (induction d) auto

lemma filter_one_key:
  "distinct (map fst d) \<Longrightarrow> dict_find (KStr a) d = Some v \<Longrightarrow> a \<noteq> b \<Longrightarrow>
     KStr b \<notin> fst ` set d \<Longrightarrow>
     filter (\<lambda>e. fst e = KStr b \<or> fst e = KStr a) d = [(KStr a, v)] \<and>
     filter (\<lambda>e. fst e = KStr a \<or> fst e = KStr b) d = [(KStr a, v)]"
proof (induction d)
  case Nil
  then show ?case by simp
next
  case (Cons e d)
  show ?case
  proof (cases "fst e = KStr a")
    case True
    with Cons.prems have "KStr a \<notin> fst ` set d" "KStr b \<notin> fst ` set d"
      by auto
    then have "filter (\<lambda>e. fst e = KStr b \<or> fst e = KStr a) d = []"
      "filter (\<lambda>e. fst e = KStr a \<or> fst e = KStr b) d = []"
      by (force simp: filter_empty_conv)+
    with True Cons.prems show ?thesis
      by (cases e) auto
  next
    case False
    with Cons show ?thesis
      by (cases e) auto
  qed
qed

lemma filter_supported_pair:
  assumes "distinct (map fst cfg)"
    and "dict_find (KStr ''justicar'') cfg = Some rj"
    and "dict_find (KStr ''chain'') cfg = Some rc"
  shows "filter (\<lambda>e. fst e = KStr ''justicar'' \<or> fst e = KStr ''chain'') cfg =
           [(KStr ''justicar'', rj), (KStr ''chain'', rc)] \<or>
         filter (\<lambda>e. fst e = KStr ''justicar'' \<or> fst e = KStr ''chain'') cfg =
           [(KStr ''chain'', rc), (KStr ''justicar'', rj)]"
  using assms
proof (induction cfg)
  case Nil
  then show ?case by simp
next
  case (Cons e cfg)
  consider "fst e = KStr ''justicar''" | "fst e = KStr ''chain''"
    | "fst e \<noteq> KStr ''justicar''" "fst e \<noteq> KStr ''chain''"
    by blast
  then show ?case
  proof cases
    case 1
    with Cons.prems have "KStr ''justicar'' \<notin> fst ` set cfg" "distinct (map fst cfg)"
      "dict_find (KStr ''chain'') cfg = Some rc" "snd e = rj"
      by (cases e; auto)+
    with filter_one_key [of cfg "''chain''" rc "''justicar''"] 1 show ?thesis
      by (cases e) auto
  next
    case 2
    with Cons.prems have "KStr ''chain'' \<notin> fst ` set cfg" "distinct (map fst cfg)"
      "dict_find (KStr ''justicar'') cfg = Some rj" "snd e = rc"
      by (cases e; auto)+
    with filter_one_key [of cfg "''justicar''" rj "''chain''"] 2 show ?thesis
      by (cases e) auto
  next
    case 3
    with Cons show ?thesis
      by (cases e) auto
  qed
qed

lemma dict_set_KStr_keys:
  "set (map fst (dict_set d (KStr a) v)) = insert (KStr a) (set (map fst d))"
  by (induction d) force+

lemma subset_absorb_key: "S \<subseteq> insert k A \<union> B \<Longrightarrow> k \<in> B \<Longrightarrow> S \<subseteq> A \<union> B"
  by blast

lemma save_services_keys:
  "save_services cfg acc = Inr services \<Longrightarrow>
     set (map fst services) \<subseteq> set (map fst acc) \<union> {KStr ''justicar'', KStr ''chain''}"
proof (induction cfg arbitrary: acc)
  case Nil
  then show ?case by auto
next
  case (Cons e cfg)
  obtain k r where e: "e = (k, r)"
    by (cases e)
  show ?case
  proof (cases "k = KStr ''justicar'' \<or> k = KStr ''chain''")
    case True
    with Cons.prems e obtain s where
      "save_services cfg (dict_set acc k s) = Inr services"
      by (auto split: sum.splits if_splits)
    from Cons.IH [OF this] have
      "set (map fst services) \<subseteq>
         set (map fst (dict_set acc k s)) \<union> {KStr ''justicar'', KStr ''chain''}" .
    moreover from True have "set (map fst (dict_set acc k s)) = insert k (set (map fst acc))"
      by (elim disjE) (simp_all only: dict_set_KStr_keys)
    ultimately have
      "set (map fst services) \<subseteq>
         insert k (set (map fst acc)) \<union> {KStr ''justicar'', KStr ''chain''}"
      by (simp only:)
    moreover from True have "k \<in> {KStr ''justicar'', KStr ''chain''}"
      by (elim disjE) simp_all
    ultimately show ?thesis
      by (rule subset_absorb_key)
  next
    case False
    with Cons e show ?thesis
      by auto
  qed
qed

lemma save_writes:
  "save_services cfg [] = Inr services \<Longrightarrow> writable w path \<Longrightarrow>
     save_config_to_docker_compose cfg path w =
       Inr (w\<lparr>files := (files w)(path \<mapsto> Document (docker_compose_data services))\<rparr>)"
  by (simp add: save_config_to_docker_compose_def)

lemma save_written:
  "save_config_to_docker_compose cfg path w = Inr w' \<Longrightarrow>
     \<exists>services. save_services cfg [] = Inr services \<and>
       w' = w\<lparr>files := (files w)(path \<mapsto> Document (docker_compose_data services))\<rparr>"
  by (auto simp: save_config_to_docker_compose_def bind_eq_Inr split: if_splits)

lemma save_services_two:
  assumes "justicar_service rj = Inr sj" "chain_service rc = Inr sc"
  shows "save_services [(KStr ''justicar'', rj), (KStr ''chain'', rc)] [] =
           Inr [(KStr ''justicar'', sj), (KStr ''chain'', sc)]"
    and "save_services [(KStr ''chain'', rc), (KStr ''justicar'', rj)] [] =
           Inr [(KStr ''chain'', sc), (KStr ''justicar'', sj)]"
  using assms by simp_all

text \<open>
  C8. Take a configuration with a well-formed record under \<^verbatim>\<open>justicar\<close> and one under
  \<^verbatim>\<open>chain\<close>, and anything at all under any further keys. On a writable path the save
  does not raise, and the document it writes has the version, the service definitions
  of \<^verbatim>\<open>justicar\<close> and \<^verbatim>\<open>chain\<close> and of nothing else, in the order of the configuration,
  and the one network \<^verbatim>\<open>cd2n\<close> with the bridge driver. Whatever configuration is saved,
  a document that gets written has services under these two keys at most and that same
  network.
\<close>

theorem save_skips_unsupported:
  assumes "distinct (map fst cfg)"
    and "dict_find (KStr ''justicar'') cfg = Some rj" and "justicar_record rj"
    and "dict_find (KStr ''chain'') cfg = Some rc" and "chain_record rc"
    and "writable w path"
  shows "(\<exists>sj sc services.
      justicar_service rj = Inr sj \<and> chain_service rc = Inr sc \<and>
      (services = [(KStr ''justicar'', sj), (KStr ''chain'', sc)] \<or>
       services = [(KStr ''chain'', sc), (KStr ''justicar'', sj)]) \<and>
      save_config_to_docker_compose cfg path w =
        Inr (w\<lparr>files := (files w)(path \<mapsto> Document (PDict
          [(KStr ''version'', PStr ''3.9''),
           (KStr ''services'', PDict services),
           (KStr ''networks'', PDict
              [(KStr ''cd2n'', PDict
                  [(KStr ''name'', PStr ''cd2n''),
                   (KStr ''driver'', PStr ''bridge'')])])]))\<rparr>)) \<and>
    (\<forall>cfg' w'. save_config_to_docker_compose cfg' path w = Inr w' \<longrightarrow>
      (\<exists>services.
         set (map fst services) \<subseteq> {KStr ''justicar'', KStr ''chain''} \<and>
         files w' path = Some (Document (PDict
           [(KStr ''version'', PStr ''3.9''),
            (KStr ''services'', PDict services),
            (KStr ''networks'', PDict
               [(KStr ''cd2n'', PDict
                   [(KStr ''name'', PStr ''cd2n''),
                    (KStr ''driver'', PStr ''bridge'')])])]))))"
proof (intro conjI allI impI)
  from assms(3) obtain sj where sj: "justicar_service rj = Inr sj"
    using justicar_service_record by (fastforce simp: justicar_record_def)
  from assms(5) obtain sc where sc: "chain_service rc = Inr sc"
    using chain_service_record by (fastforce simp: chain_record_def)
  let ?f = "filter (\<lambda>e. fst e = KStr ''justicar'' \<or> fst e = KStr ''chain'') cfg"
  from filter_supported_pair [OF assms(1,2,4)] have
    "save_services ?f [] = Inr [(KStr ''justicar'', sj), (KStr ''chain'', sc)] \<or>
     save_services ?f [] = Inr [(KStr ''chain'', sc), (KStr ''justicar'', sj)]"
    using save_services_two [OF sj sc] by (elim disjE) (simp_all only: simp_thms)
  then obtain services where
    s: "services = [(KStr ''justicar'', sj), (KStr ''chain'', sc)] \<or>
        services = [(KStr ''chain'', sc), (KStr ''justicar'', sj)]" and
    "save_services ?f [] = Inr services"
    by blast
  then have "save_services cfg [] = Inr services"
    by (simp only: save_services_skip [of cfg])
  from save_writes [OF this assms(6)] sj sc s
  show "\<exists>sj sc services.
      justicar_service rj = Inr sj \<and> chain_service rc = Inr sc \<and>
      (services = [(KStr ''justicar'', sj), (KStr ''chain'', sc)] \<or>
       services = [(KStr ''chain'', sc), (KStr ''justicar'', sj)]) \<and>
      save_config_to_docker_compose cfg path w =
        Inr (w\<lparr>files := (files w)(path \<mapsto> Document (PDict
          [(KStr ''version'', PStr ''3.9''),
           (KStr ''services'', PDict services),
           (KStr ''networks'', PDict
              [(KStr ''cd2n'', PDict
                  [(KStr ''name'', PStr ''cd2n''),
                   (KStr ''driver'', PStr ''bridge'')])])]))\<rparr>)"
    unfolding docker_compose_data_def by blast
next
  fix cfg' w'
  assume "save_config_to_docker_compose cfg' path w = Inr w'"
  from save_written [OF this] obtain services where
    s: "save_services cfg' [] = Inr services" and
    w': "w' = w\<lparr>files := (files w)(path \<mapsto> Document (docker_compose_data services))\<rparr>"
    by blast
  from save_services_keys [OF s] have
    "set (map fst services) \<subseteq> {KStr ''justicar'', KStr ''chain''}"
    by simp
  with w' show "\<exists>services.
         set (map fst services) \<subseteq> {KStr ''justicar'', KStr ''chain''} \<and>
         files w' path = Some (Document (PDict
           [(KStr ''version'', PStr ''3.9''),
            (KStr ''services'', PDict services),
            (KStr ''networks'', PDict
               [(KStr ''cd2n'', PDict
                   [(KStr ''name'', PStr ''cd2n''),
                    (KStr ''driver'', PStr ''bridge'')])])]))"
    by (auto simp: docker_compose_data_def)
qed

theorem save_skips_unsupported_witness:
  "distinct (map fst
     [(KStr ''redis'', PDict [(KStr ''port'', PStr ''6379'')]),
      (KStr ''chain'', PDict
         [(KStr ''name'', PStr ''cess-chain''), (KStr ''port'', PStr ''9944''),
          (KStr ''network'', PStr ''testnet''),
          (KStr ''configuration file'', PStr ''/opt/cd2n/chain'')]),
      (KStr ''justicar'', PDict
         [(KStr ''port'', PStr ''1309''),
          (KStr ''configuration file'', PStr ''/opt/cd2n/justicar''),
          (KStr ''name'', PStr ''justicar'')])]) \<and>
   writable no_files ''docker-compose.yml'' \<and>
   (\<exists>sj sc.
      justicar_service (PDict
         [(KStr ''port'', PStr ''1309''),
          (KStr ''configuration file'', PStr ''/opt/cd2n/justicar''),
          (KStr ''name'', PStr ''justicar'')]) = Inr sj \<and>
      chain_service (PDict
         [(KStr ''name'', PStr ''cess-chain''), (KStr ''port'', PStr ''9944''),
          (KStr ''network'', PStr ''testnet''),
          (KStr ''configuration file'', PStr ''/opt/cd2n/chain'')]) = Inr sc \<and>
      save_config_to_docker_compose
        [(KStr ''redis'', PDict [(KStr ''port'', PStr ''6379'')]),
         (KStr ''chain'', PDict
            [(KStr ''name'', PStr ''cess-chain''), (KStr ''port'', PStr ''9944''),
             (KStr ''network'', PStr ''testnet''),
             (KStr ''configuration file'', PStr ''/opt/cd2n/chain'')]),
         (KStr ''justicar'', PDict
            [(KStr ''port'', PStr ''1309''),
             (KStr ''configuration file'', PStr ''/opt/cd2n/justicar''),
             (KStr ''name'', PStr ''justicar'')])]
        ''docker-compose.yml'' no_files =
        Inr (no_files\<lparr>files := (files no_files)(''docker-compose.yml'' \<mapsto> Document (PDict
          [(KStr ''version'', PStr ''3.9''),
           (KStr ''services'', PDict [(KStr ''chain'', sc), (KStr ''justicar'', sj)]),
           (KStr ''networks'', PDict
              [(KStr ''cd2n'', PDict
                  [(KStr ''name'', PStr ''cd2n''),
                   (KStr ''driver'', PStr ''bridge'')])])]))\<rparr>))"
proof -
  let ?rj = "PDict
         [(KStr ''port'', PStr ''1309''),
          (KStr ''configuration file'', PStr ''/opt/cd2n/justicar''),
          (KStr ''name'', PStr ''justicar'')]"
  let ?rc = "PDict
         [(KStr ''name'', PStr ''cess-chain''), (KStr ''port'', PStr ''9944''),
          (KStr ''network'', PStr ''testnet''),
          (KStr ''configuration file'', PStr ''/opt/cd2n/chain'')]"
  let ?cfg = "[(KStr ''redis'', PDict [(KStr ''port'', PStr ''6379'')]),
      (KStr ''chain'', ?rc), (KStr ''justicar'', ?rj)]"
  have d: "distinct (map fst ?cfg)"
    by simp
  have j: "dict_find (KStr ''justicar'') ?cfg = Some ?rj" "justicar_record ?rj"
    by (simp_all add: justicar_record_def str_field_def)
  have c: "dict_find (KStr ''chain'') ?cfg = Some ?rc" "chain_record ?rc"
    by (simp_all add: chain_record_def str_field_def)
  have w: "writable no_files ''docker-compose.yml''"
    by (simp add: no_files_def)
  have o: "save_services ?cfg [] \<noteq>
      Inr [(KStr ''justicar'', sj), (KStr ''chain'', sc)]" for sj sc
    by (auto simp: bind_eq_Inr split: sum.splits)
  from save_skips_unsupported [OF d j c w, THEN conjunct1] obtain sj sc services where
    r: "justicar_service ?rj = Inr sj" "chain_service ?rc = Inr sc"
       "services = [(KStr ''justicar'', sj), (KStr ''chain'', sc)] \<or>
        services = [(KStr ''chain'', sc), (KStr ''justicar'', sj)]"
       "save_config_to_docker_compose ?cfg ''docker-compose.yml'' no_files =
        Inr (no_files\<lparr>files := (files no_files)(''docker-compose.yml'' \<mapsto> Document (PDict
          [(KStr ''version'', PStr ''3.9''),
           (KStr ''services'', PDict services),
           (KStr ''networks'', PDict
              [(KStr ''cd2n'', PDict
                  [(KStr ''name'', PStr ''cd2n''),
                   (KStr ''driver'', PStr ''bridge'')])])]))\<rparr>)"
    by blast
  from r(4) have "save_services ?cfg [] = Inr services"
    by (auto simp: save_config_to_docker_compose_def bind_eq_Inr docker_compose_data_def
        no_files_def split: if_splits dest!: fun_cong [where x = "''docker-compose.yml''"])
  with o r(3) have "services = [(KStr ''chain'', sc), (KStr ''justicar'', sj)]"
    by blast
  with r d w show ?thesis
    by blast
qed

section \<open>Saving and loading again\<close>

lemma has_keys_length:
  assumes "has_keys d ks" "distinct ks"
  shows "length d = length ks"
proof -
  have "length d = length (map fst d)"
    by simp
  also have "\<dots> = card (set (map fst d))"
    using assms(1) distinct_card [of "map fst d"] by (simp add: has_keys_def)
  also have "\<dots> = card (set (map KStr ks))"
    using assms(1) by (simp only: has_keys_def)
  also have "\<dots> = length (map KStr ks)"
    using assms(2) by (intro distinct_card) (simp add: distinct_map inj_on_def)
  finally show ?thesis
    by simp
qed

lemma has_keys_two:
  assumes "has_keys m [a, b]" "a \<noteq> b"
  shows "\<exists>x y. m = [(KStr a, x), (KStr b, y)] \<or> m = [(KStr b, y), (KStr a, x)]"
proof -
  from has_keys_length [OF assms(1)] assms(2) have "length m = 2"
    by simp
  then obtain e1 e2 where m: "m = [e1, e2]"
    by (auto simp: length_Suc_conv numeral_2_eq_2)
  obtain k1 x1 k2 x2 where e: "e1 = (k1, x1)" "e2 = (k2, x2)"
    by (cases e1, cases e2)
  from assms(1) m e have "{k1, k2} = {KStr a, KStr b}"
    by (simp add: has_keys_def)
  then have "k1 = KStr a \<and> k2 = KStr b \<or> k1 = KStr b \<and> k2 = KStr a"
    by (auto simp: doubleton_eq_iff)
  with m e show ?thesis
    by auto
qed

lemma colon_free_field:
  assumes "colon_free_record r ks" "k \<in> set ks"
  shows "\<exists>s. str_field r k = Some s \<and> CHR '':'' \<notin> set s"
  using assms
  by (auto simp: colon_free_record_def list_all_iff split: pyval.splits option.splits)

lemma colon_free_dict:
  assumes "colon_free_record r ks"
  shows "\<exists>d. r = PDict d \<and> has_keys d ks"
  using assms by (auto simp: colon_free_record_def split: pyval.splits)

lemma takeWhile_before:
  "c \<notin> set s \<Longrightarrow> takeWhile (\<lambda>x. x \<noteq> c) (s @ c # t) = s"
  by (induction s) auto

lemma dict_find_distinct:
  "distinct (map fst d) \<Longrightarrow> (KStr a, v) \<in> set d \<Longrightarrow> dict_find (KStr a) d = Some v"
proof (induction d)
  case Nil
  then show ?case by simp
next
  case (Cons e d)
  obtain k w where e: "e = (k, w)"
    by (cases e)
  show ?case
  proof (cases "k = KStr a")
    case True
    with Cons.prems e have "KStr a \<notin> fst ` set d"
      by simp
    then have "(KStr a, v) \<notin> set d"
      by (rule contrapos_nn) (rule image_eqI [where x = "(KStr a, v)"], simp_all)
    with Cons.prems e True show ?thesis
      by simp
  next
    case False
    with Cons e show ?thesis
      by simp
  qed
qed

lemma dict_find_map_KStr:
  "k \<in> set ks \<Longrightarrow> dict_find (KStr k) (map (\<lambda>k. (KStr k, g k)) ks) = Some (g k)"
  by (induction ks) auto

lemma py_eq_fields:
  assumes "has_keys d ks" "distinct ks"
    and "\<forall>k \<in> set ks. dict_find (KStr k) d = Some (PStr (f k))"
  shows "py_eq (PDict (map (\<lambda>k. (KStr k, PStr (f k))) ks)) (PDict d)"
    and "py_eq (PDict d) (PDict (map (\<lambda>k. (KStr k, PStr (f k))) ks))"
proof -
  note len = has_keys_length [OF assms(1,2)]
  with assms(3) show "py_eq (PDict (map (\<lambda>k. (KStr k, PStr (f k))) ks)) (PDict d)"
    by (auto simp: list_all_iff)
  have "case dict_find (fst e) (map (\<lambda>k. (KStr k, PStr (f k))) ks) of
          None \<Rightarrow> False | Some w \<Rightarrow> py_eq (snd e) w" if e: "e \<in> set d" for e
  proof -
    obtain k' v where kv: "e = (k', v)"
      by (cases e)
    from e kv have "k' \<in> set (map fst d)"
      by (simp add: image_iff) (rule bexI [where x = "(k', v)"], simp_all)
    with assms(1) have "k' \<in> set (map KStr ks)"
      by (simp only: has_keys_def)
    then obtain k where k: "k' = KStr k" "k \<in> set ks"
      by auto
    with e kv assms(1) have "dict_find (KStr k) d = Some v"
      by (simp add: has_keys_def dict_find_distinct)
    with assms(3) k have "v = PStr (f k)"
      by auto
    with k kv show ?thesis
      by (simp add: dict_find_map_KStr)
  qed
  with len show "py_eq (PDict d) (PDict (map (\<lambda>k. (KStr k, PStr (f k))) ks))"
    by (simp add: list_all_iff)
qed

lemma split_on_image:
  "CHR '':'' \<notin> set t \<Longrightarrow>
     split_on CHR '':'' (''cesslab/cess-chain:'' @ t) = [''cesslab/cess-chain'', t]"
  by (simp add: split_on_free)

lemma load_saved:
  assumes "CHR '':'' \<notin> set pj" "CHR '':'' \<notin> set fj"
    and "CHR '':'' \<notin> set pc" "CHR '':'' \<notin> set fc" "CHR '':'' \<notin> set t"
    and "justicar_service rj = Inr sj" "chain_service rc = Inr sc"
    and "str_field rj ''port'' = Some pj" "str_field rj ''configuration file'' = Some fj"
      "str_field rj ''name'' = Some nj"
    and "str_field rc ''port'' = Some pc" "str_field rc ''configuration file'' = Some fc"
      "str_field rc ''name'' = Some nc" "str_field rc ''network'' = Some t"
    and "services = [(KStr ''justicar'', sj), (KStr ''chain'', sc)] \<or>
         services = [(KStr ''chain'', sc), (KStr ''justicar'', sj)]"
  shows "load_config_from_docker_compose
           (w\<lparr>files := (files w)(path \<mapsto> Document (docker_compose_data services))\<rparr>) path =
         [(KStr ''justicar'', PDict
             [(KStr ''port'', PStr pj),
              (KStr ''configuration file'', PStr fj),
              (KStr ''name'', PStr nj)]),
          (KStr ''chain'', PDict
             [(KStr ''port'', PStr pc),
              (KStr ''configuration file'', PStr fc),
              (KStr ''name'', PStr nc),
              (KStr ''network'', PStr t)])]"
proof -
  note sj = justicar_service_record [OF assms(8-10)]
  note sc = chain_service_record [OF assms(11-14)]
  from assms(6) sj have vj: "sj = PDict
         [(KStr ''image'', PStr ''cdn:latest''),
          (KStr ''container_name'', PStr nj),
          (KStr ''devices'', PList
             [PStr ''/dev/sgx_enclave:/dev/sgx_enclave'',
              PStr ''/dev/sgx_provision:/dev/sgx_provision'']),
          (KStr ''ports'', PList [PStr (pj @ '':1309'')]),
          (KStr ''volumes'', PList [PStr (fj @ '':/opt/justicar/backups'')]),
          (KStr ''networks'', PList [PStr ''cd2n'']),
          (KStr ''stdin_open'', PBool True),
          (KStr ''tty'', PBool True)]"
    by simp
  from assms(7) sc have vc: "sc = PDict
         [(KStr ''image'', PStr (''cesslab/cess-chain:'' @ t)),
          (KStr ''volumes'', PList [PStr (fc @ '':/opt/cess/data'')]),
          (KStr ''command'', PList (chain_command (PStr (''cess-'' @ t)))),
          (KStr ''logging'', PDict
             [(KStr ''driver'', PStr ''json-file''),
              (KStr ''options'', PDict
                 [(KStr ''max-size'', PStr ''300m''),
                  (KStr ''max-file'', PStr ''10'')])]),
          (KStr ''networks'', PList [PStr ''cd2n'']),
          (KStr ''container_name'', PStr nc),
          (KStr ''ports'', PList [PStr (pc @ '':9944''), PStr ''30336:30336''])]"
    by simp
  have ej: "extract_service (KStr ''justicar'') sj [] =
      Inr [(KStr ''justicar'', PDict
             [(KStr ''port'', PStr pj),
              (KStr ''configuration file'', PStr fj),
              (KStr ''name'', PStr nj)])]"
    using assms(1,2)
    by (simp add: vj extract_justicar first_host_side_list takeWhile_before)
  have net: "list_item (split_on CHR '':'' (''cesslab/cess-chain:'' @ t)) (Suc 0) = Inr t"
    by (simp only: split_on_image [OF assms(5)]) (simp add: list_item_def)
  have ec: "extract_service (KStr ''chain'') sc nc' =
      Inr (dict_set nc' (KStr ''chain'') (PDict
             [(KStr ''port'', PStr pc),
              (KStr ''configuration file'', PStr fc),
              (KStr ''name'', PStr nc),
              (KStr ''network'', PStr t)]))" for nc'
    using assms(3,4)
    by (simp add: vc extract_chain chain_network_dict first_host_side_list takeWhile_before
        net del: append.simps)
  have se: "service_entry (docker_compose_data services) (KStr ''justicar'') = Inr sj"
    "service_entry (docker_compose_data services) (KStr ''chain'') = Inr sc"
    using assms(15) by (auto simp: service_entry_def docker_compose_data_def)
  show ?thesis
    by (simp add: load_config_from_docker_compose_def load_try_def read_yaml_def
        DEFAULT_CONFIG_def load_service_def se ej ec)
qed


lemma str_field_find:
  "str_field (PDict d) k = Some s \<Longrightarrow> dict_find (KStr k) d = Some (PStr s)"
  by (simp add: str_field_Some)

lemma py_eq_justicar_record:
  assumes "has_keys d [''port'', ''configuration file'', ''name'']"
    and "str_field (PDict d) ''port'' = Some p"
    and "str_field (PDict d) ''configuration file'' = Some f"
    and "str_field (PDict d) ''name'' = Some n"
  shows "py_eq (PDict [(KStr ''port'', PStr p), (KStr ''configuration file'', PStr f),
            (KStr ''name'', PStr n)]) (PDict d)"
    and "py_eq (PDict d) (PDict [(KStr ''port'', PStr p),
            (KStr ''configuration file'', PStr f), (KStr ''name'', PStr n)])"
  using py_eq_fields [OF assms(1), of "\<lambda>k. the (str_field (PDict d) k)"]
    assms(2-4) [THEN str_field_find] assms(2-4)
  by simp_all

lemma py_eq_chain_record:
  assumes "has_keys d [''port'', ''configuration file'', ''name'', ''network'']"
    and "str_field (PDict d) ''port'' = Some p"
    and "str_field (PDict d) ''configuration file'' = Some f"
    and "str_field (PDict d) ''name'' = Some n"
    and "str_field (PDict d) ''network'' = Some t"
  shows "py_eq (PDict [(KStr ''port'', PStr p), (KStr ''configuration file'', PStr f),
            (KStr ''name'', PStr n), (KStr ''network'', PStr t)]) (PDict d)"
    and "py_eq (PDict d) (PDict [(KStr ''port'', PStr p),
            (KStr ''configuration file'', PStr f), (KStr ''name'', PStr n),
            (KStr ''network'', PStr t)])"
  using py_eq_fields [OF assms(1), of "\<lambda>k. the (str_field (PDict d) k)"]
    assms(2-5) [THEN str_field_find] assms(2-5)
  by simp_all

text \<open>
  C1. Take a configuration with exactly the keys \<^verbatim>\<open>justicar\<close> and \<^verbatim>\<open>chain\<close>, in either
  order, whose records have exactly their fields, each a string without a colon. On a
  writable path the save succeeds, and loading from that path afterwards gives a
  configuration that is equal to the one saved, in the sense of \<^verbatim>\<open>==\<close> and in both
  directions. The network comes back out of the image name.
\<close>

theorem save_load_round_trip:
  assumes "well_formed_model m" and "writable w path"
  shows "\<exists>w'. save_config_to_docker_compose m path w = Inr w' \<and>
    py_eq (PDict (load_config_from_docker_compose w' path)) (PDict m) \<and>
    py_eq (PDict m) (PDict (load_config_from_docker_compose w' path))"
proof -
  from assms(1) have hk: "has_keys m [''justicar'', ''chain'']"
    by (simp add: well_formed_model_def)
  from assms(1) obtain rj rc where
    fj: "dict_find (KStr ''justicar'') m = Some rj" and
    cj: "colon_free_record rj [''port'', ''configuration file'', ''name'']" and
    fc: "dict_find (KStr ''chain'') m = Some rc" and
    cc: "colon_free_record rc [''port'', ''configuration file'', ''name'', ''network'']"
    by (auto simp: well_formed_model_def split: option.splits)
  from has_keys_two [OF hk] fj fc have m:
    "m = [(KStr ''justicar'', rj), (KStr ''chain'', rc)] \<or>
     m = [(KStr ''chain'', rc), (KStr ''justicar'', rj)]"
    by auto
  from colon_free_dict [OF cj] obtain dj where
    dj: "rj = PDict dj" "has_keys dj [''port'', ''configuration file'', ''name'']"
    by blast
  from colon_free_dict [OF cc] obtain dc where
    dc: "rc = PDict dc" "has_keys dc [''port'', ''configuration file'', ''name'', ''network'']"
    by blast
  from colon_free_field [OF cj, of "''port''"] obtain pj where
    pj: "str_field rj ''port'' = Some pj" "CHR '':'' \<notin> set pj"
    by auto
  from colon_free_field [OF cj, of "''configuration file''"] obtain fij where
    fij: "str_field rj ''configuration file'' = Some fij" "CHR '':'' \<notin> set fij"
    by auto
  from colon_free_field [OF cj, of "''name''"] obtain nj where
    nj: "str_field rj ''name'' = Some nj"
    by auto
  from colon_free_field [OF cc, of "''port''"] obtain pc where
    pc: "str_field rc ''port'' = Some pc" "CHR '':'' \<notin> set pc"
    by auto
  from colon_free_field [OF cc, of "''configuration file''"] obtain fic where
    fic: "str_field rc ''configuration file'' = Some fic" "CHR '':'' \<notin> set fic"
    by auto
  from colon_free_field [OF cc, of "''name''"] obtain nc where
    nc: "str_field rc ''name'' = Some nc"
    by auto
  from colon_free_field [OF cc, of "''network''"] obtain t where
    t: "str_field rc ''network'' = Some t" "CHR '':'' \<notin> set t"
    by auto
  from justicar_service_record [OF pj(1) fij(1) nj] chain_service_record [OF pc(1) fic(1) nc t(1)]
  obtain vj vc where v: "justicar_service rj = Inr vj" "chain_service rc = Inr vc"
    by blast
  let ?lj = "PDict [(KStr ''port'', PStr pj), (KStr ''configuration file'', PStr fij),
    (KStr ''name'', PStr nj)]"
  let ?lc = "PDict [(KStr ''port'', PStr pc), (KStr ''configuration file'', PStr fic),
    (KStr ''name'', PStr nc), (KStr ''network'', PStr t)]"
  from m save_services_two [OF v] obtain services where
    s: "save_services m [] = Inr services"
       "services = [(KStr ''justicar'', vj), (KStr ''chain'', vc)] \<or>
        services = [(KStr ''chain'', vc), (KStr ''justicar'', vj)]"
    by (elim disjE) (simp_all only: simp_thms)
  let ?w = "w\<lparr>files := (files w)(path \<mapsto> Document (docker_compose_data services))\<rparr>"
  have saved: "save_config_to_docker_compose m path w = Inr ?w"
    using s(1) assms(2) by (rule save_writes)
  have loaded: "load_config_from_docker_compose ?w path =
      [(KStr ''justicar'', ?lj), (KStr ''chain'', ?lc)]"
    using pj(2) fij(2) pc(2) fic(2) t(2) v pj(1) fij(1) nj pc(1) fic(1) nc t(1) s(2)
    by (rule load_saved)
  note ej = py_eq_justicar_record [OF dj(2) pj(1) [unfolded dj(1)] fij(1) [unfolded dj(1)]
    nj [unfolded dj(1)]]
  note ec = py_eq_chain_record [OF dc(2) pc(1) [unfolded dc(1)] fic(1) [unfolded dc(1)]
    nc [unfolded dc(1)] t(1) [unfolded dc(1)]]
  have e1: "py_eq (PDict [(KStr ''justicar'', ?lj), (KStr ''chain'', ?lc)]) (PDict m)"
    using m ej(1) ec(1) by (elim disjE) (simp_all add: dj(1) dc(1))
  have e2: "py_eq (PDict m) (PDict [(KStr ''justicar'', ?lj), (KStr ''chain'', ?lc)])"
    using m ej(2) ec(2) by (elim disjE) (simp_all add: dj(1) dc(1))
  from e1 e2 have
    "py_eq (PDict (load_config_from_docker_compose ?w path)) (PDict m) \<and>
     py_eq (PDict m) (PDict (load_config_from_docker_compose ?w path))"
    by (simp only: loaded)
  with saved show ?thesis
    by blast
qed

theorem save_load_round_trip_witness:
  "well_formed_model
     [(KStr ''chain'', PDict
         [(KStr ''name'', PStr ''cess-node''),
          (KStr ''port'', PStr ''9955''),
          (KStr ''network'', PStr ''mainnet''),
          (KStr ''configuration file'', PStr ''/data/chain'')]),
      (KStr ''justicar'', PDict
         [(KStr ''port'', PStr ''8080''),
          (KStr ''configuration file'', PStr ''/data/justicar''),
          (KStr ''name'', PStr ''worker'')])] \<and>
   writable no_files ''docker-compose.yml'' \<and>
   (\<exists>w'. save_config_to_docker_compose
       [(KStr ''chain'', PDict
          [(KStr ''name'', PStr ''cess-node''),
           (KStr ''port'', PStr ''9955''),
           (KStr ''network'', PStr ''mainnet''),
           (KStr ''configuration file'', PStr ''/data/chain'')]),
        (KStr ''justicar'', PDict
          [(KStr ''port'', PStr ''8080''),
           (KStr ''configuration file'', PStr ''/data/justicar''),
           (KStr ''name'', PStr ''worker'')])]
       ''docker-compose.yml'' no_files = Inr w' \<and>
     py_eq (PDict (load_config_from_docker_compose w' ''docker-compose.yml''))
       (PDict
         [(KStr ''chain'', PDict
            [(KStr ''name'', PStr ''cess-node''),
             (KStr ''port'', PStr ''9955''),
             (KStr ''network'', PStr ''mainnet''),
             (KStr ''configuration file'', PStr ''/data/chain'')]),
          (KStr ''justicar'', PDict
            [(KStr ''port'', PStr ''8080''),
             (KStr ''configuration file'', PStr ''/data/justicar''),
             (KStr ''name'', PStr ''worker'')])]))"
proof -
  let ?m = "[(KStr ''chain'', PDict
         [(KStr ''name'', PStr ''cess-node''),
          (KStr ''port'', PStr ''9955''),
          (KStr ''network'', PStr ''mainnet''),
          (KStr ''configuration file'', PStr ''/data/chain'')]),
      (KStr ''justicar'', PDict
         [(KStr ''port'', PStr ''8080''),
          (KStr ''configuration file'', PStr ''/data/justicar''),
          (KStr ''name'', PStr ''worker'')])]"
  have k: "has_keys ?m [''justicar'', ''chain'']"
    "has_keys [(KStr ''name'', PStr ''cess-node''),
          (KStr ''port'', PStr ''9955''),
          (KStr ''network'', PStr ''mainnet''),
          (KStr ''configuration file'', PStr ''/data/chain'')]
       [''port'', ''configuration file'', ''name'', ''network'']"
    "has_keys [(KStr ''port'', PStr ''8080''),
          (KStr ''configuration file'', PStr ''/data/justicar''),
          (KStr ''name'', PStr ''worker'')]
       [''port'', ''configuration file'', ''name'']"
    by (auto simp: has_keys_def)
  have a: "well_formed_model ?m"
    by (simp add: well_formed_model_def colon_free_record_def str_field_def k)
  have b: "writable no_files ''docker-compose.yml''"
    by (simp add: no_files_def)
  from save_load_round_trip [OF a b] a b show ?thesis
    by blast
qed

section \<open>A commit whose save fails\<close>

lemma key_eq_trans: "key_eq a b \<Longrightarrow> key_eq b c \<Longrightarrow> key_eq a c"
  by (simp add: key_eq_def)

lemma key_eq_sym: "key_eq a b \<Longrightarrow> key_eq b a"
  by (simp add: key_eq_def)







lemma key_eq_refl [simp]: "key_eq k k"
  by (simp add: key_eq_def)




end
